theory Spec2Isabelle
  imports Complex_Main
begin

section \<open>Numbers and strings of the source\<close>

text \<open>
  Prices, pips and confidences are Python floats: IEEE binary64 numbers. A finite float
  is the real number it stands for. \<open>fl\<close> rounds a real to the nearest float, a tie
  going to the neighbour with an even significand: the significand has 53 bits, the
  spacing of the floats around \<open>x\<close> is \<open>2 ^ (e - 52)\<close> where \<open>2 ^ e \<le> \<bar>x\<bar> < 2 ^ (e + 1)\<close>,
  and below \<open>2 ^ (- 1022)\<close> the spacing stays \<open>2 ^ (- 1074)\<close>.
\<close>

definition round_half_even :: "real \<Rightarrow> int" where
  "round_half_even y =
     (let f = \<lfloor>y\<rfloor>; d = y - of_int f
      in if d < 1 / 2 then f
         else if 1 / 2 < d then f + 1
         else if even f then f else f + 1)"

definition pow2 :: "int \<Rightarrow> real" where
  "pow2 k = (if 0 \<le> k then 2 ^ nat k else 1 / 2 ^ nat (- k))"

function ilog2 :: "int \<Rightarrow> int" where
  "ilog2 n = (if n \<le> 1 then 0 else 1 + ilog2 (n div 2))"
  by pat_completeness auto
termination
  by (relation "measure nat") auto

text \<open>For \<open>x > 0\<close>, the \<open>e\<close> with \<open>2 ^ e \<le> x < 2 ^ (e + 1)\<close>.\<close>

definition exponent :: "real \<Rightarrow> int" where
  "exponent x =
     (if 1 \<le> x then ilog2 \<lfloor>x\<rfloor>
      else let k = ilog2 \<lfloor>1 / x\<rfloor>
           in if x * pow2 k = 1 then - k else - k - 1)"

definition fl :: "real \<Rightarrow> real" where
  "fl x =
     (if x = 0 then 0
      else let q = pow2 (max (exponent \<bar>x\<bar>) (- 1022) - 52)
           in of_int (round_half_even (x / q)) * q)"

text \<open>
  A Python float is \<open>Some x\<close> for the finite float \<open>x\<close>, and \<open>None\<close> when it is not
  finite (\<open>inf\<close>, \<open>-inf\<close> or \<open>nan\<close>, which are not told apart; the two zeros are not
  told apart either). An operation rounds its exact result; a result that rounds to
  \<open>2 ^ 1024\<close> or beyond overflows and is not finite, and an operation on a float that
  is not finite gives one that is not finite.
\<close>

type_synonym pyfloat = "real option"

definition to_float :: "real \<Rightarrow> pyfloat" where
  "to_float x = (if \<bar>fl x\<bar> < 2 ^ 1024 then Some (fl x) else None)"

definition fadd :: "pyfloat \<Rightarrow> pyfloat \<Rightarrow> pyfloat" where
  "fadd a b =
     (case a of None \<Rightarrow> None
      | Some x \<Rightarrow> (case b of None \<Rightarrow> None | Some y \<Rightarrow> to_float (x + y)))"

definition fsub :: "pyfloat \<Rightarrow> pyfloat \<Rightarrow> pyfloat" where
  "fsub a b =
     (case a of None \<Rightarrow> None
      | Some x \<Rightarrow> (case b of None \<Rightarrow> None | Some y \<Rightarrow> to_float (x - y)))"

definition fmul :: "pyfloat \<Rightarrow> pyfloat \<Rightarrow> pyfloat" where
  "fmul a b =
     (case a of None \<Rightarrow> None
      | Some x \<Rightarrow> (case b of None \<Rightarrow> None | Some y \<Rightarrow> to_float (x * y)))"

text \<open>The quotient of a float by a positive integer such as the pip scale.\<close>

definition fdiv :: "pyfloat \<Rightarrow> real \<Rightarrow> pyfloat" where
  "fdiv a n = (case a of None \<Rightarrow> None | Some x \<Rightarrow> to_float (x / n))"

text \<open>
  \<open>round(x, n)\<close> on a float: the exact value of \<open>x\<close> is rounded to \<open>n\<close> decimal
  places, a tie going to the even neighbour, and the float nearest to that decimal is
  returned; a float that is not finite is returned as it is.
\<close>

definition py_round :: "pyfloat \<Rightarrow> nat \<Rightarrow> pyfloat" where
  "py_round a n =
     (case a of
        None \<Rightarrow> None
      | Some x \<Rightarrow> to_float (of_int (round_half_even (x * 10 ^ n)) / 10 ^ n))"

text \<open>\<open>s.startswith(p)\<close> and the substring test \<open>sub in s\<close> on strings.\<close>

fun startswith :: "string \<Rightarrow> string \<Rightarrow> bool" where
  "startswith s [] = True"
| "startswith [] (p # ps) = False"
| "startswith (c # cs) (p # ps) = (c = p \<and> startswith cs ps)"

fun str_in :: "string \<Rightarrow> string \<Rightarrow> bool" where
  "str_in sub [] = (sub = [])"
| "str_in sub (c # cs) = (startswith (c # cs) sub \<or> str_in sub cs)"

section \<open>analysis_engine.py: price levels\<close>

text \<open>
  The pip scale chosen at the head of \<open>calculate_stop_loss_take_profit\<close> (its local
  \<open>pip_multiplier\<close>): 100 for a pair whose name contains JPY, 100 for XAU/USD, 10000
  for every other pair.
\<close>

definition pip_multiplier :: "string \<Rightarrow> real" where
  "pip_multiplier pair =
     (if str_in ''JPY'' pair then 100
      else if pair = ''XAU/USD'' then 100
      else 10000)"

text \<open>
  The literals \<open>0.995\<close> and \<open>1.005\<close> of the source are the floats nearest to these
  decimals.
\<close>

definition calculate_stop_loss_take_profit ::
  "pyfloat \<Rightarrow> string \<Rightarrow> pyfloat \<Rightarrow> pyfloat \<Rightarrow> string \<Rightarrow> pyfloat \<times> pyfloat" where
  "calculate_stop_loss_take_profit entry_price direction sl_pips tp_pips pair =
     (let (stop_loss_price, take_profit_price) =
        (if str_in ''BUY'' direction then
           (fsub entry_price (fdiv sl_pips (pip_multiplier pair)),
            fadd entry_price (fdiv tp_pips (pip_multiplier pair)))
         else if str_in ''SELL'' direction then
           (fadd entry_price (fdiv sl_pips (pip_multiplier pair)),
            fsub entry_price (fdiv tp_pips (pip_multiplier pair)))
         else (fmul entry_price (Some (fl 0.995)), fmul entry_price (Some (fl 1.005))))
      in (py_round stop_loss_price 5, py_round take_profit_price 5))"

section \<open>data_models.py\<close>

datatype SignalType = AUTO | MANUAL_DETAILED | MANUAL_FAST | MANUAL_FORCE

text \<open>
  Instants (\<open>datetime\<close> values) are seconds on one clock; \<open>hour_of\<close> and
  \<open>minute_of\<close> are the \<open>.hour\<close> and \<open>.minute\<close> attributes.
\<close>

type_synonym datetime = real

definition hour_of :: "datetime \<Rightarrow> int" where
  "hour_of t = (\<lfloor>t\<rfloor> div 3600) mod 24"

definition minute_of :: "datetime \<Rightarrow> int" where
  "minute_of t = (\<lfloor>t\<rfloor> div 60) mod 60"

text \<open>
  The settings dictionary of \<open>BotSettings\<close>; \<open>load_settings\<close> fills every missing
  key with its default, so each \<open>settings.get(key, default)\<close> of the scan finds the key.
\<close>

record BotSettings =
  set_lot_size :: pyfloat
  set_stop_loss_pips :: pyfloat
  set_take_profit_pips :: pyfloat
  set_xau_take_profit_pips :: pyfloat
  set_manual_confidence_threshold :: real

text \<open>
  The dictionary returned by \<open>TechnicalAnalyzer.analyze\<close>, with the keys the signal
  pipeline reads (the indicator values it carries along are left out). The empty
  dictionary \<open>{}\<close> is \<open>None\<close> of \<open>technicals option\<close>.
\<close>

record technicals_dict =
  tech_direction :: string
  tech_confidence :: real
  tech_price :: pyfloat
  tech_buy_signals :: int
  tech_sell_signals :: int

text \<open>
  A JSON value found under the key \<open>confidence\<close> of the AI reply: a number, given
  by its value as a finite float (\<open>true\<close> and \<open>false\<close> count as 1 and 0 in Python
  arithmetic; the literals \<open>NaN\<close> and \<open>Infinity\<close> that \<open>json.loads\<close> also reads
  are left out), or anything else (text, null, a list), on which the float arithmetic
  of the blend raises \<open>TypeError\<close>.
\<close>

datatype jvalue = JNumber real | JOther

text \<open>
  The dictionary returned by \<open>AIAnalyzer.analyze_pair\<close>: \<open>signal\<close> and
  \<open>confidence\<close> may be missing from a parsed reply; \<open>model_used\<close> and
  \<open>analysis_type\<close> are always set.
\<close>

record ai_dict =
  ai_signal :: "string option"
  ai_confidence :: "jvalue option"
  ai_model_used :: string
  ai_analysis_type :: string

record Signal =
  pair :: string
  signal_type :: SignalType
  direction :: string
  entry_price :: pyfloat
  confidence :: real
  expiry_minutes :: int
  entry_time :: datetime
  stop_loss :: pyfloat
  take_profit :: pyfloat
  stop_loss_pips :: pyfloat
  take_profit_pips :: pyfloat
  lot_size :: pyfloat
  martingale_levels :: "datetime list"
  technicals :: technicals_dict
  ai_analysis :: "ai_dict option"
  score :: pyfloat
  is_forced :: bool

section \<open>analysis_engine.py: the AI scorer\<close>

text \<open>
  What the body of the \<open>try\<close> block of \<open>analyze_pair\<close> meets once the request is
  made: an exception (the request failing, or any other error), a reply with no
  \<open>{...}\<close> in it, a \<open>{...}\<close> that \<open>json.loads\<close> rejects, or a JSON object with its
  \<open>signal\<close> and \<open>confidence\<close> entries.
\<close>

datatype ai_reply =
  CallRaises
| NoJsonObject
| JsonDecodeError
| JsonObject "string option" "jvalue option"

definition neutral_dict :: "string \<Rightarrow> string \<Rightarrow> ai_dict" where
  "neutral_dict model atype =
     \<lparr>ai_signal = Some ''NEUTRAL'', ai_confidence = Some (JNumber 50),
      ai_model_used = model, ai_analysis_type = atype\<rparr>"

text \<open>
  The body of the \<open>try\<close> block names \<open>asyncio\<close> (before the request is made) and
  \<open>json\<close> (when a \<open>{...}\<close> was found in the reply). \<open>analysis_engine.py\<close> imports
  neither, so in the module as it stands neither name is bound; evaluating an unbound
  name raises \<open>NameError\<close>, which the handler of the \<open>try\<close> block catches like any
  other exception.
\<close>

definition asyncio_bound :: bool where
  "asyncio_bound = False"

definition json_bound :: bool where
  "json_bound = False"

definition analyze_pair :: "bool \<Rightarrow> string \<Rightarrow> ai_reply \<Rightarrow> ai_dict" where
  "analyze_pair client atype reply =
     (if \<not> client then neutral_dict ''No API Key'' atype
      else
        let model = (if atype = ''fast'' then ''llama-3.1-8b-instant''
                     else ''llama-3.3-70b-versatile'')
        in if \<not> asyncio_bound then neutral_dict ''error'' atype
           else case reply of
             CallRaises \<Rightarrow> neutral_dict ''error'' atype
           | NoJsonObject \<Rightarrow> neutral_dict model atype
           | JsonDecodeError \<Rightarrow>
               if json_bound then neutral_dict model atype else neutral_dict ''error'' atype
           | JsonObject sig conf \<Rightarrow>
               if json_bound then
                 \<lparr>ai_signal = sig, ai_confidence = conf,
                  ai_model_used = model, ai_analysis_type = atype\<rparr>
               else neutral_dict ''error'' atype)"

section \<open>bot_handlers.py: the bot and the per-pair analysis\<close>

text \<open>
  The attributes of \<open>RobustForexSignalBot\<close> that the scan, the signal commands and the
  scheduler read or write. \<open>ai_analyzer\<close> is \<open>None\<close> when the bot has no analyzer,
  and \<open>Some c\<close> for an analyzer whose Groq client exists iff \<open>c\<close>. The entries of
  \<open>stats\<close> are fields of their own.
\<close>

record bot =
  is_primary_instance :: bool
  running :: bool
  ai_analyzer :: "bool option"
  settings :: BotSettings
  current_signal :: "Signal option"
  auto_scan_interval :: real
  last_auto_scan :: "datetime option"
  total_signals :: nat
  auto_signals :: nat
  manual_signals :: nat
  forced_signals :: nat
  signals_today :: nat
  skipped_out_of_hours :: nat
  manual_override_count :: nat

definition min_confidence :: real where
  "min_confidence = 70"

text \<open>
  What one pair's analysis meets outside the bot: whether the pair is in its trading
  hours, how many rows \<open>get_market_data\<close> returned (0 for the empty frame), the result
  of the technical analyzer, and the AI reply.
\<close>

record pair_env =
  in_trading_hours :: bool
  data_rows :: nat
  tech_result :: "technicals_dict option"
  reply :: ai_reply

text \<open>
  \<open>ai_analysis.get('confidence', 50) if ai_analysis else 50\<close>; the result is \<open>None\<close>
  when the value found is not a number, and the blend then raises.
\<close>

definition get_ai_confidence :: "ai_dict option \<Rightarrow> real option" where
  "get_ai_confidence ai =
     (case ai of
        None \<Rightarrow> Some 50
      | Some d \<Rightarrow>
          (case ai_confidence d of
             None \<Rightarrow> Some 50
           | Some (JNumber r) \<Rightarrow> Some r
           | Some JOther \<Rightarrow> None))"

text \<open>
  The blend \<open>tech_confidence * 0.7 + ai_confidence * 0.3\<close> in float arithmetic, then
  \<open>min(100, max(0, ...))\<close>. Both confidences are finite; a sum that overflows is cut to
  100 or 0 by the clamp, as the rounded sum is here.
\<close>

definition final_confidence :: "real \<Rightarrow> real \<Rightarrow> real" where
  "final_confidence tech_conf ai_conf =
     min 100 (max 0 (fl (fl (tech_conf * fl 0.7) + fl (ai_conf * fl 0.3))))"

definition choose_direction :: "ai_dict option \<Rightarrow> technicals_dict \<Rightarrow> string" where
  "choose_direction ai tech =
     (case ai of
        None \<Rightarrow> tech_direction tech
      | Some d \<Rightarrow>
          (case ai_signal d of
             None \<Rightarrow> tech_direction tech
           | Some s \<Rightarrow> if s \<noteq> [] \<and> s \<noteq> ''NEUTRAL'' then s else tech_direction tech))"

definition run_ai :: "bot \<Rightarrow> SignalType \<Rightarrow> ai_reply \<Rightarrow> ai_dict option" where
  "run_ai b st r =
     (case ai_analyzer b of
        None \<Rightarrow> None
      | Some client \<Rightarrow>
          Some (analyze_pair client (if st = MANUAL_FAST then ''fast'' else ''detailed'') r))"

text \<open>
  The part of \<open>analyze_single_pair\<close> that follows the AI analysis: the blend, the
  direction, the price levels from the settings and the signal. It is \<open>None\<close> when
  the blend raises, which the handler of \<open>analyze_single_pair\<close> turns into the
  result \<open>None\<close>.
\<close>

definition build_signal ::
  "bot \<Rightarrow> datetime \<Rightarrow> string \<Rightarrow> SignalType \<Rightarrow> technicals_dict \<Rightarrow> ai_dict option \<Rightarrow> Signal option" where
  "build_signal b now p st tech ai =
     (case get_ai_confidence ai of
        None \<Rightarrow> None
      | Some ai_conf \<Rightarrow>
          let dir = choose_direction ai tech;
              sl_pips = set_stop_loss_pips (settings b);
              tp_pips = (if p = ''XAU/USD'' then set_xau_take_profit_pips (settings b)
                         else set_take_profit_pips (settings b));
              (stop_loss_price, take_profit_price) =
                calculate_stop_loss_take_profit (tech_price tech) dir sl_pips tp_pips p
          in Some
            \<lparr>pair = p, signal_type = st, direction = dir,
             entry_price = py_round (tech_price tech) 5,
             confidence = final_confidence (tech_confidence tech) ai_conf,
             expiry_minutes = 5, entry_time = now,
             stop_loss = stop_loss_price, take_profit = take_profit_price,
             stop_loss_pips = sl_pips, take_profit_pips = tp_pips,
             lot_size = set_lot_size (settings b),
             martingale_levels = [now + 300, now + 600, now + 900],
             technicals = tech, ai_analysis = ai,
             score =
               fadd (fadd (fmul (Some (tech_confidence tech)) (Some 0.5))
                          (fmul (Some ai_conf) (Some (fl 0.3))))
                    (fmul (to_float (of_int (tech_buy_signals tech - tech_sell_signals tech)))
                          (Some (fl 0.2))),
             is_forced = False\<rparr>)"

definition analyze_single_pair ::
  "bot \<Rightarrow> (string \<Rightarrow> pair_env) \<Rightarrow> datetime \<Rightarrow> string \<Rightarrow> SignalType \<Rightarrow> Signal option" where
  "analyze_single_pair b env now p st =
     (if \<not> in_trading_hours (env p) then None
      else if data_rows (env p) < 5 then None
      else case tech_result (env p) of
        None \<Rightarrow> None
      | Some tech \<Rightarrow>
          if tech_confidence tech < 30 then None
          else build_signal b now p st tech (run_ai b st (reply (env p))))"

text \<open>
  \<open>analyze_single_pair_manual\<close> repeats the body of \<open>analyze_single_pair\<close> line for
  line; only its log messages differ.
\<close>

definition analyze_single_pair_manual ::
  "bot \<Rightarrow> (string \<Rightarrow> pair_env) \<Rightarrow> datetime \<Rightarrow> string \<Rightarrow> SignalType \<Rightarrow> Signal option" where
  "analyze_single_pair_manual b env now p st = analyze_single_pair b env now p st"

section \<open>bot_handlers.py: the scan over the active pairs\<close>

text \<open>
  What a run leaves behind, in order: a batch handed to \<open>asyncio.gather\<close>, a sleep
  of so many seconds, a call of the scan, a message to the admin.
\<close>

datatype event =
  Gather "string list"
| Sleep real
| CallScan SignalType
| SendAdmin string

text \<open>
  \<open>asyncio.gather\<close>: the tasks of a batch finish in some order (the task indices in
  order of completion); each result is stored in the slot of its task, so the list
  returned follows the order of the tasks. A slot is \<open>None\<close> until its task finishes.
\<close>

definition gather :: "nat list \<Rightarrow> 'a list \<Rightarrow> 'a option list" where
  "gather completion rs =
     fold (\<lambda>i slots. if i < length rs then slots[i := Some (rs ! i)] else slots)
       completion (replicate (length rs) None)"

definition batch_size :: nat where
  "batch_size = 3"

text \<open>
  The test on one gathered result: it is kept when it is a \<open>Signal\<close> whose
  confidence reaches the threshold. \<open>analyze_single_pair\<close> catches every exception
  and returns \<open>None\<close>, so a gathered result is a signal or \<open>None\<close>.
\<close>

definition passes :: "real \<Rightarrow> Signal option option \<Rightarrow> Signal option" where
  "passes threshold r =
     (case r of
        Some (Some s) \<Rightarrow> if threshold \<le> confidence s then Some s else None
      | _ \<Rightarrow> None)"

text \<open>
  The loop \<open>for i in range(0, len(pairs_to_scan), batch_size)\<close>: the batch is the
  slice \<open>pairs_to_scan[i:i+batch_size]\<close>, its analyses are gathered, the passing
  results are appended to \<open>all_signals\<close>, and the loop sleeps one second after every
  batch.
\<close>

function scan_loop ::
  "(string \<Rightarrow> Signal option) \<Rightarrow> (nat \<Rightarrow> nat list) \<Rightarrow> real \<Rightarrow> string list \<Rightarrow> nat \<Rightarrow>
   Signal list \<Rightarrow> event list \<Rightarrow> Signal list \<times> event list" where
  "scan_loop analyze completion threshold pairs_to_scan i all_signals trace =
     (if i < length pairs_to_scan then
        let batch = take batch_size (drop i pairs_to_scan);
            results = gather (completion i) (map analyze batch)
        in scan_loop analyze completion threshold pairs_to_scan (i + batch_size)
             (all_signals @ List.map_filter (passes threshold) results)
             (trace @ [Gather batch, Sleep 1])
      else (all_signals, trace))"
  by pat_completeness auto
termination
  by (relation "measure (\<lambda>(analyze, completion, threshold, pairs_to_scan, i, all_signals, trace).
        length pairs_to_scan - i)") (auto simp: batch_size_def)

text \<open>\<open>list.sort(key=..., reverse=True)\<close>: a stable sort, largest key first.\<close>

definition sort_reverse :: "('a \<Rightarrow> real) \<Rightarrow> 'a list \<Rightarrow> 'a list" where
  "sort_reverse key xs = sort_key (\<lambda>x. - key x) xs"

text \<open>
  What a scan meets outside the bot: the list \<open>get_active_pairs\<close> returns when the
  scan reads it, the environment of every pair, the clock, and the completion order of
  the tasks of the batch that starts at each index.
\<close>

record scan_env =
  pairs_to_scan :: "string list"
  pair_envs :: "string \<Rightarrow> pair_env"
  clock :: datetime
  completions :: "nat \<Rightarrow> nat list"

text \<open>
  The end of both scans: \<open>None\<close> when \<open>all_signals\<close> is empty; otherwise the list
  is sorted by confidence, largest first, and its first element is returned with its
  \<open>is_forced\<close> flag set.
\<close>

definition select_best :: "bool \<Rightarrow> Signal list \<Rightarrow> Signal option" where
  "select_best forced all_signals =
     (if all_signals = [] then None
      else Some ((hd (sort_reverse confidence all_signals))\<lparr>is_forced := forced\<rparr>))"

definition scan_active_pairs :: "bot \<Rightarrow> scan_env \<Rightarrow> SignalType \<Rightarrow> Signal option \<times> event list" where
  "scan_active_pairs b se st =
     (if pairs_to_scan se = [] then (None, [])
      else
        let (all_signals, trace) =
              scan_loop (\<lambda>p. analyze_single_pair b (pair_envs se) (clock se) p st)
                (completions se) min_confidence (pairs_to_scan se) 0 [] []
        in (select_best False all_signals, trace))"

definition scan_active_pairs_manual ::
  "bot \<Rightarrow> scan_env \<Rightarrow> SignalType \<Rightarrow> Signal option \<times> event list" where
  "scan_active_pairs_manual b se st =
     (if pairs_to_scan se = [] then (None, [])
      else
        let (all_signals, trace) =
              scan_loop (\<lambda>p. analyze_single_pair_manual b (pair_envs se) (clock se) p st)
                (completions se) (set_manual_confidence_threshold (settings b))
                (pairs_to_scan se) 0 [] []
        in (select_best True all_signals, trace))"

section \<open>bot_handlers.py: the signal commands\<close>

datatype reply_msg =
  SecondaryInstance
| SignalActive string
| NoActiveTradingPairs
| InvalidPair
| NotInTradingHours string
| Scanning nat
| Analysing string
| NoStrongSignals
| NoStrongSignalFor string
| NoSignalsEvenWithOverride
| SignalSent Signal
| ForcedSignalSent Signal
| ErrorReply
| NoSignalToClear
| SignalCleared string

text \<open>
  Every command that produces a signal runs in two parts with an \<open>await\<close> between
  them. The first part tests the slot \<open>current_signal\<close> and the other conditions; it
  either ends the command with a reply (\<open>Inl\<close>), or goes on to the scan or the
  analysis (\<open>Inr\<close>). While the command awaits the scan, other tasks of the bot run.
  The second part takes the bot as it is when the scan has returned, and writes the
  slot without testing it again. \<open>signal_lock\<close> is held around the single assignment
  only.
\<close>

text \<open>
  What \<open>/auto\<close> and \<open>/manual\<close> meet outside the bot: the list \<open>get_active_pairs\<close>
  returns when the command reads it, the environment of the scan it starts, and whether
  sending the signal message succeeds.
\<close>

record cmd_env =
  active_pairs :: "string list"
  scan_of :: scan_env
  send_ok :: bool

definition cmd_auto_check :: "bot \<Rightarrow> cmd_env \<Rightarrow> bot \<times> reply_msg list + unit" where
  "cmd_auto_check b ce =
     (if \<not> is_primary_instance b then Inl (b, [SecondaryInstance])
      else case current_signal b of
        Some cur \<Rightarrow> Inl (b, [SignalActive (pair cur)])
      | None \<Rightarrow>
          if active_pairs ce = [] then Inl (b, [NoActiveTradingPairs])
          else Inr ())"

definition cmd_auto_store :: "bot \<Rightarrow> cmd_env \<Rightarrow> Signal option \<Rightarrow> bot \<times> reply_msg list" where
  "cmd_auto_store b ce signal =
     (case signal of
        None \<Rightarrow> (b, [NoStrongSignals])
      | Some sg \<Rightarrow>
          if send_ok ce then
            (b\<lparr>current_signal := Some sg,
               auto_signals := auto_signals b + 1,
               total_signals := total_signals b + 1,
               signals_today := signals_today b + 1\<rparr>,
             [SignalSent sg])
          else (b\<lparr>current_signal := Some sg\<rparr>, [ErrorReply]))"

text \<open>\<open>/auto\<close> when no other task changes the bot while it awaits its scan.\<close>

definition cmd_auto :: "bot \<Rightarrow> cmd_env \<Rightarrow> bot \<times> reply_msg list" where
  "cmd_auto b ce =
     (case cmd_auto_check b ce of
        Inl done \<Rightarrow> done
      | Inr u \<Rightarrow>
          (let (b', replies) = cmd_auto_store b ce (fst (scan_active_pairs b (scan_of ce) AUTO))
           in (b', Scanning (length (active_pairs ce)) # replies)))"

definition cmd_manual_check :: "bot \<Rightarrow> cmd_env \<Rightarrow> bot \<times> reply_msg list + unit" where
  "cmd_manual_check b ce =
     (if \<not> is_primary_instance b then Inl (b, [SecondaryInstance])
      else case current_signal b of
        Some cur \<Rightarrow> Inl (b, [SignalActive (pair cur)])
      | None \<Rightarrow>
          if active_pairs ce = [] then Inl (b, [NoActiveTradingPairs])
          else Inr ())"

definition cmd_manual_store :: "bot \<Rightarrow> cmd_env \<Rightarrow> Signal option \<Rightarrow> bot \<times> reply_msg list" where
  "cmd_manual_store b ce signal =
     (case signal of
        None \<Rightarrow> (b, [NoSignalsEvenWithOverride])
      | Some sg \<Rightarrow>
          if send_ok ce then
            (b\<lparr>current_signal := Some sg,
               forced_signals := forced_signals b + 1,
               total_signals := total_signals b + 1,
               signals_today := signals_today b + 1,
               manual_override_count := manual_override_count b + 1\<rparr>,
             [ForcedSignalSent sg])
          else (b\<lparr>current_signal := Some sg\<rparr>, [ErrorReply]))"

text \<open>\<open>/manual\<close> when no other task changes the bot while it awaits its scan.\<close>

definition cmd_manual :: "bot \<Rightarrow> cmd_env \<Rightarrow> bot \<times> reply_msg list" where
  "cmd_manual b ce =
     (case cmd_manual_check b ce of
        Inl done \<Rightarrow> done
      | Inr u \<Rightarrow>
          (let (b', replies) =
                 cmd_manual_store b ce
                   (fst (scan_active_pairs_manual b (scan_of ce) MANUAL_FORCE))
           in (b', Scanning (length (active_pairs ce)) # replies)))"

text \<open>
  What \<open>/analyze\<close> and \<open>/fast\<close> meet outside the bot: the argument of the command
  (\<open>None\<close> without an argument, \<open>Some None\<close> for an argument that \<open>parse_pair\<close>
  rejects, \<open>Some (Some p)\<close> for one it reads as the pair \<open>p\<close>), the list of active
  pairs, whether the chosen pair is in its trading hours when the command tests it, the
  environment and the clock of the analysis, and whether sending the signal message
  succeeds.
\<close>

record analyze_env =
  arg :: "string option option"
  an_active_pairs :: "string list"
  pair_in_hours :: "string \<Rightarrow> bool"
  an_envs :: "string \<Rightarrow> pair_env"
  an_clock :: datetime
  an_send_ok :: bool

text \<open>
  The test of the trading hours and the test of the analysis result are the same in
  \<open>/analyze\<close> and \<open>/fast\<close>. Neither command tests whether the instance is primary.
\<close>

definition hours_check :: "bot \<Rightarrow> analyze_env \<Rightarrow> string \<Rightarrow> bot \<times> reply_msg list + string" where
  "hours_check b ae p =
     (if \<not> pair_in_hours ae p then
        Inl (b\<lparr>skipped_out_of_hours := skipped_out_of_hours b + 1\<rparr>, [NotInTradingHours p])
      else Inr p)"

definition cmd_analyze_check :: "bot \<Rightarrow> analyze_env \<Rightarrow> bot \<times> reply_msg list + string" where
  "cmd_analyze_check b ae =
     (case current_signal b of
        Some cur \<Rightarrow> Inl (b, [SignalActive (pair cur)])
      | None \<Rightarrow>
          (case arg ae of
             None \<Rightarrow>
               (case an_active_pairs ae of
                  [] \<Rightarrow> Inl (b, [NoActiveTradingPairs])
                | p # ps \<Rightarrow> hours_check b ae p)
           | Some None \<Rightarrow> Inl (b, [InvalidPair])
           | Some (Some p) \<Rightarrow> hours_check b ae p))"

definition cmd_fast_check :: "bot \<Rightarrow> analyze_env \<Rightarrow> bot \<times> reply_msg list + string" where
  "cmd_fast_check b ae =
     (case current_signal b of
        Some cur \<Rightarrow> Inl (b, [SignalActive (pair cur)])
      | None \<Rightarrow>
          (case arg ae of
             None \<Rightarrow> hours_check b ae ''EUR/USD''
           | Some None \<Rightarrow> Inl (b, [InvalidPair])
           | Some (Some p) \<Rightarrow> hours_check b ae p))"

definition analysis_store ::
  "bot \<Rightarrow> analyze_env \<Rightarrow> string \<Rightarrow> Signal option \<Rightarrow> bot \<times> reply_msg list" where
  "analysis_store b ae p signal =
     (case signal of
        None \<Rightarrow> (b, [NoStrongSignalFor p])
      | Some sg \<Rightarrow>
          if confidence sg < min_confidence then (b, [NoStrongSignalFor p])
          else if an_send_ok ae then
            (b\<lparr>current_signal := Some sg,
               manual_signals := manual_signals b + 1,
               total_signals := total_signals b + 1,
               signals_today := signals_today b + 1\<rparr>,
             [SignalSent sg])
          else (b\<lparr>current_signal := Some sg\<rparr>, [ErrorReply]))"

text \<open>
  \<open>/analyze\<close> and \<open>/fast\<close> when no other task changes the bot while they await the
  analysis.
\<close>

definition cmd_analyze :: "bot \<Rightarrow> analyze_env \<Rightarrow> bot \<times> reply_msg list" where
  "cmd_analyze b ae =
     (case cmd_analyze_check b ae of
        Inl done \<Rightarrow> done
      | Inr p \<Rightarrow>
          (let (b', replies) =
                 analysis_store b ae p
                   (analyze_single_pair b (an_envs ae) (an_clock ae) p MANUAL_DETAILED)
           in (b', Analysing p # replies)))"

definition cmd_fast :: "bot \<Rightarrow> analyze_env \<Rightarrow> bot \<times> reply_msg list" where
  "cmd_fast b ae =
     (case cmd_fast_check b ae of
        Inl done \<Rightarrow> done
      | Inr p \<Rightarrow>
          (let (b', replies) =
                 analysis_store b ae p
                   (analyze_single_pair b (an_envs ae) (an_clock ae) p MANUAL_FAST)
           in (b', Analysing p # replies)))"

definition cmd_clear :: "bot \<Rightarrow> bot \<times> reply_msg list" where
  "cmd_clear b =
     (case current_signal b of
        None \<Rightarrow> (b, [NoSignalToClear])
      | Some cur \<Rightarrow> (b\<lparr>current_signal := None\<rparr>, [SignalCleared (pair cur)]))"

section \<open>bot_handlers.py: the auto scanner\<close>

text \<open>
  What one pass of the scanner's loop meets outside the bot: the clock reading
  \<open>nigeria_time\<close>, the list \<open>get_active_pairs(nigeria_time)\<close>, and the environment
  of the scan it may start.
\<close>

record tick_env =
  nigeria_time :: datetime
  tick_active_pairs :: "string list"
  tick_scan :: scan_env

definition scan_due :: "bot \<Rightarrow> datetime \<Rightarrow> bool" where
  "scan_due b t =
     (case last_auto_scan b of
        None \<Rightarrow> True
      | Some l \<Rightarrow> auto_scan_interval b \<le> t - l)"

text \<open>
  The body of the loop of \<open>auto_scanner\<close> is in two parts as well. The first resets
  the daily counter, tests the slot, whether a scan is due and whether any pair is
  active; it ends the pass with its sleep, or goes on to the scan. The second takes the
  bot as it is when the scan has returned, and stores a signal of confidence 75 or more
  without testing the slot again.
\<close>

definition auto_scanner_check :: "bot \<Rightarrow> tick_env \<Rightarrow> bot \<times> event list + bot" where
  "auto_scanner_check b0 te =
     (let t = nigeria_time te;
          b = (if hour_of t = 0 \<and> minute_of t < 5 then b0\<lparr>signals_today := 0\<rparr> else b0)
      in case current_signal b of
           Some cur \<Rightarrow> Inl (b, [Sleep 60])
         | None \<Rightarrow>
             if scan_due b t then
               if tick_active_pairs te = [] then
                 Inl (b\<lparr>last_auto_scan := Some t\<rparr>, [Sleep 60])
               else Inr b
             else Inl (b, [Sleep 60]))"

definition auto_scanner_store :: "bot \<Rightarrow> tick_env \<Rightarrow> Signal option \<Rightarrow> bot \<times> event list" where
  "auto_scanner_store b te signal =
     (case signal of
        Some sg \<Rightarrow>
          if 75 \<le> confidence sg then
            (b\<lparr>current_signal := Some sg,
               auto_signals := auto_signals b + 1,
               total_signals := total_signals b + 1,
               signals_today := signals_today b + 1,
               last_auto_scan := Some (nigeria_time te)\<rparr>,
             [SendAdmin (pair sg), Sleep 60])
          else (b\<lparr>last_auto_scan := Some (nigeria_time te)\<rparr>, [Sleep 60])
      | None \<Rightarrow> (b\<lparr>last_auto_scan := Some (nigeria_time te)\<rparr>, [Sleep 60]))"

text \<open>A pass of the loop when no other task changes the bot while it awaits its scan.\<close>

definition auto_scanner_body :: "bot \<Rightarrow> tick_env \<Rightarrow> bot \<times> event list" where
  "auto_scanner_body b0 te =
     (case auto_scanner_check b0 te of
        Inl done \<Rightarrow> done
      | Inr b \<Rightarrow>
          (let (signal, trace) = scan_active_pairs b (tick_scan te) AUTO;
               (b', events) = auto_scanner_store b te signal
           in (b', CallScan AUTO # trace @ events)))"

text \<open>
  One pass of \<open>while self.running and self.is_primary_instance\<close>: \<open>None\<close> when the
  guard fails and the loop ends.
\<close>

definition auto_scanner_tick :: "bot \<Rightarrow> tick_env \<Rightarrow> (bot \<times> event list) option" where
  "auto_scanner_tick b te =
     (if running b \<and> is_primary_instance b then Some (auto_scanner_body b te) else None)"

text \<open>
  The scanner over the ticks of a run, one environment for each pass; it returns at once
  on a secondary instance and stops at the first pass whose guard fails.
\<close>

fun auto_scanner_loop :: "bot \<Rightarrow> tick_env list \<Rightarrow> bot \<times> event list" where
  "auto_scanner_loop b [] = (b, [])"
| "auto_scanner_loop b (te # tes) =
     (case auto_scanner_tick b te of
        None \<Rightarrow> (b, [])
      | Some (b', trace) \<Rightarrow>
          (let (b'', trace') = auto_scanner_loop b' tes in (b'', trace @ trace')))"

definition auto_scanner :: "bot \<Rightarrow> tick_env list \<Rightarrow> bot \<times> event list" where
  "auto_scanner b tes = (if \<not> is_primary_instance b then (b, []) else auto_scanner_loop b tes)"

section \<open>instance_manager.py: the lock file\<close>

text \<open>The JSON record written to the lock file.\<close>

record lock_data =
  instance_id :: string
  timestamp :: datetime
  pid :: nat
  hostname :: string
  expires :: datetime

text \<open>
  The lock file as a reader finds it: absent, present with content on which the block
  that loads it and compares its timestamp raises (an empty file among them), or
  present with a record.
\<close>

datatype lock_file_content = NoFile | Unreadable | LockRecord lock_data

text \<open>
  The shared storage: the content of \<open>bot_instance.lock\<close> and the instance whose
  process holds the advisory lock on it (\<open>None\<close> when no process does). The lock is
  advisory: it does not stop another process from opening the file for writing, and
  \<open>open(path, 'w')\<close> empties the file.
\<close>

record storage =
  content :: lock_file_content
  flock_holder :: "string option"

record EnhancedInstanceManager =
  self_instance_id :: string
  self_pid :: nat
  self_hostname :: string
  lock_held :: bool
  lock_timeout :: real
  lock_file :: bool

text \<open>
  The record an instance writes; the two clock readings of the source (one for
  \<open>timestamp\<close>, one for \<open>expires\<close>) are the one reading \<open>now\<close> of the call.
\<close>

definition own_lock_data :: "EnhancedInstanceManager \<Rightarrow> datetime \<Rightarrow> real \<Rightarrow> lock_data" where
  "own_lock_data m now timeout =
     \<lparr>instance_id = self_instance_id m, timestamp = now, pid = self_pid m,
      hostname = self_hostname m, expires = now + timeout\<rparr>"

definition acquire_lock_fallback ::
  "EnhancedInstanceManager \<Rightarrow> storage \<Rightarrow> datetime \<Rightarrow> real \<Rightarrow>
   bool \<times> EnhancedInstanceManager \<times> storage" where
  "acquire_lock_fallback m s now timeout =
     (let write = (True, m\<lparr>lock_held := True, lock_timeout := timeout\<rparr>,
                   s\<lparr>content := LockRecord (own_lock_data m now timeout)\<rparr>)
      in case content s of
           NoFile \<Rightarrow> write
         | Unreadable \<Rightarrow> write
         | LockRecord d \<Rightarrow>
             if timeout < now - timestamp d then write
             else (False, m, s))"

text \<open>
  \<open>acquire_lock\<close>, with the module flag \<open>PORTALOCKER_AVAILABLE\<close> as its first
  argument. With portalocker, the file is first opened with mode \<open>'w'\<close>, then locked
  without blocking; when the lock is refused the handle is closed and the file read
  back. The blocking lock of the stale branch is taken to be granted. The outer handler,
  which falls back to \<open>acquire_lock_fallback\<close> when opening or writing the file
  raises, is not reached: opening and writing succeed here.
\<close>

definition acquire_lock ::
  "bool \<Rightarrow> EnhancedInstanceManager \<Rightarrow> storage \<Rightarrow> datetime \<Rightarrow> real \<Rightarrow>
   bool \<times> EnhancedInstanceManager \<times> storage" where
  "acquire_lock portalocker_available m s now timeout =
     (if \<not> portalocker_available then acquire_lock_fallback m s now timeout
      else if lock_held m then (True, m, s)
      else
        let s1 = s\<lparr>content := Unreadable\<rparr>;
            take_it = (True, m\<lparr>lock_held := True, lock_timeout := timeout, lock_file := True\<rparr>,
                       s1\<lparr>content := LockRecord (own_lock_data m now timeout),
                          flock_holder := Some (self_instance_id m)\<rparr>)
        in if flock_holder s1 = None then take_it
           else
             (case content s1 of
                LockRecord d \<Rightarrow>
                  if timeout < now - timestamp d then take_it
                  else (False, m\<lparr>lock_file := False\<rparr>, s1)
              | _ \<Rightarrow> (False, m\<lparr>lock_file := False\<rparr>, s1)))"

section \<open>The bot as \<open>__init__\<close> builds it\<close>

text \<open>
  The default settings of \<open>load_settings\<close> and the attributes set by
  \<open>RobustForexSignalBot.__init__\<close>; the argument says whether an AI analyzer was
  built and whether it has a client.
\<close>

definition default_settings :: BotSettings where
  "default_settings =
     \<lparr>set_lot_size = Some (fl 0.01), set_stop_loss_pips = Some 5,
      set_take_profit_pips = Some 15, set_xau_take_profit_pips = Some 20,
      set_manual_confidence_threshold = 50\<rparr>"

definition init_bot :: "bool option \<Rightarrow> bot" where
  "init_bot ai =
     \<lparr>is_primary_instance = False, running = False, ai_analyzer = ai,
      settings = default_settings, current_signal = None,
      auto_scan_interval = 300, last_auto_scan = None,
      total_signals = 0, auto_signals = 0, manual_signals = 0, forced_signals = 0,
      signals_today = 0, skipped_out_of_hours = 0, manual_override_count = 0\<rparr>"

section \<open>The partition into batches, as the specification words it\<close>

text \<open>
  The ordered list cut into consecutive batches of three, the last one possibly
  shorter. This definition follows the specification, not the loop of the scan; the
  scan is compared with it below.
\<close>

function spec_batches :: "'a list \<Rightarrow> 'a list list" where
  "spec_batches xs = (if xs = [] then [] else take 3 xs # spec_batches (drop 3 xs))"
  by pat_completeness auto
termination
  by (relation "measure length") auto

section \<open>The candidate test of the scan on one pair\<close>


section \<open>Sample inputs\<close>

text \<open>
  A technical result with a given confidence, and the environment of a pair in its
  trading hours with 100 rows of data, that technical result and a given AI reply.
\<close>

definition sample_tech :: "real \<Rightarrow> technicals_dict" where
  "sample_tech c =
     \<lparr>tech_direction = ''BUY'', tech_confidence = c, tech_price = Some (fl 1.1),
      tech_buy_signals = 6, tech_sell_signals = 2\<rparr>"

definition sample_pair_env :: "real \<Rightarrow> ai_reply \<Rightarrow> pair_env" where
  "sample_pair_env c r =
     \<lparr>in_trading_hours = True, data_rows = 100, tech_result = Some (sample_tech c), reply = r\<rparr>"

text \<open>
  The signal that the analysis of EUR/USD returns at instant 0 for a bot with default
  settings, technical confidence 80 and no AI contribution.
\<close>

definition sample_signal :: "ai_dict option \<Rightarrow> Signal" where
  "sample_signal ai =
     \<lparr>pair = ''EUR/USD'', signal_type = AUTO, direction = ''BUY'',
      entry_price = Some (fl 1.1), confidence = 71, expiry_minutes = 5, entry_time = 0,
      stop_loss = Some (fl 1.0995), take_profit = Some (fl 1.1015),
      stop_loss_pips = Some 5, take_profit_pips = Some 15,
      lot_size = Some (fl 0.01), martingale_levels = [300, 600, 900],
      technicals = sample_tech 80, ai_analysis = ai, score = Some (fl 55.8),
      is_forced = False\<rparr>"

text \<open>
  An AI dictionary as a parsed reply would give it, with a given number under
  \<open>confidence\<close>.
\<close>

definition sample_ai_dict :: "real \<Rightarrow> ai_dict" where
  "sample_ai_dict r =
     \<lparr>ai_signal = Some ''STRONG_BUY'', ai_confidence = Some (JNumber r),
      ai_model_used = ''llama-3.3-70b-versatile'', ai_analysis_type = ''detailed''\<rparr>"

text \<open>
  A scan environment over a table of pairs and their technical confidences: every pair
  is in its trading hours with data, the AI request raises, the clock reads 0, and the
  tasks of each batch finish in the order given.
\<close>

definition sample_envs :: "(string \<times> real) list \<Rightarrow> string \<Rightarrow> pair_env" where
  "sample_envs tbl q =
     sample_pair_env (case map_of tbl q of Some c \<Rightarrow> c | None \<Rightarrow> 0) CallRaises"

definition every_batch :: "nat list \<Rightarrow> nat \<Rightarrow> nat list" where
  "every_batch order i = order"

definition sample_scan_env :: "(string \<times> real) list \<Rightarrow> nat list \<Rightarrow> scan_env" where
  "sample_scan_env tbl order =
     \<lparr>pairs_to_scan = map fst tbl, pair_envs = sample_envs tbl, clock = 0,
      completions = every_batch order\<rparr>"

text \<open>
  A primary, running bot without an AI analyzer, and the environment of a command over
  a table of pairs and technical confidences, whose messages are sent without error.
\<close>

definition primary_bot :: bot where
  "primary_bot = (init_bot None)\<lparr>is_primary_instance := True, running := True\<rparr>"

definition sample_cmd_env :: "(string \<times> real) list \<Rightarrow> cmd_env" where
  "sample_cmd_env tbl =
     \<lparr>active_pairs = map fst tbl, scan_of = sample_scan_env tbl [0, 1, 2], send_ok = True\<rparr>"

text \<open>
  The environment of \<open>/analyze\<close> or \<open>/fast\<close> with a given argument, over a table
  of pairs and technical confidences: every pair is in its trading hours, and the
  signal message is sent without error.
\<close>

definition sample_analyze_env :: "string option option \<Rightarrow> (string \<times> real) list \<Rightarrow> analyze_env" where
  "sample_analyze_env a tbl =
     \<lparr>arg = a, an_active_pairs = map fst tbl, pair_in_hours = (\<lambda>p. True),
      an_envs = sample_envs tbl, an_clock = 0, an_send_ok = True\<rparr>"

text \<open>
  The technical confidences of the active pairs as two scans a moment apart find them:
  the market data of the first favours EUR/USD, that of the second GBP/USD.
\<close>

definition first_table :: "(string \<times> real) list" where
  "first_table = [(''EUR/USD'', 80), (''GBP/USD'', 60)]"

definition second_table :: "(string \<times> real) list" where
  "second_table = [(''EUR/USD'', 60), (''GBP/USD'', 90)]"

text \<open>Whether an event of a trace is a call of the scan.\<close>

definition is_scan_call :: "event \<Rightarrow> bool" where
  "is_scan_call e = (case e of CallScan t \<Rightarrow> True | _ \<Rightarrow> False)"

text \<open>
  The environment of one pass of the scanner at a given clock reading, over a table of
  pairs and technical confidences.
\<close>

definition sample_tick_env :: "(string \<times> real) list \<Rightarrow> datetime \<Rightarrow> tick_env" where
  "sample_tick_env tbl t =
     \<lparr>nigeria_time = t, tick_active_pairs = map fst tbl,
      tick_scan = sample_scan_env tbl [0, 1, 2]\<rparr>"

text \<open>
  An instance manager as \<open>__init__\<close> builds it, and a lock file that holds the record
  of another instance, written at instant 0 with a timeout of 300 seconds, while no
  process holds the advisory lock.
\<close>

definition sample_manager :: "string \<Rightarrow> EnhancedInstanceManager" where
  "sample_manager ident =
     \<lparr>self_instance_id = ident, self_pid = 1, self_hostname = ''host'',
      lock_held = False, lock_timeout = 300, lock_file = False\<rparr>"

definition other_record :: lock_data where
  "other_record =
     \<lparr>instance_id = ''b0b0b0b0b0b0'', timestamp = 0, pid = 2, hostname = ''host'',
      expires = 300\<rparr>"

definition held_storage :: storage where
  "held_storage = \<lparr>content = LockRecord other_record, flock_holder = None\<rparr>"

section \<open>Floats and rounding\<close>

lemma round_half_even_upper: "of_int (round_half_even y) \<le> y + 1 / 2"
  unfolding round_half_even_def Let_def by (auto; linarith)

lemma round_half_even_lower: "y - 1 / 2 \<le> of_int (round_half_even y)"
  unfolding round_half_even_def Let_def by (auto; linarith)

lemma round_half_even_abs: "\<bar>of_int (round_half_even y) - y\<bar> \<le> 1 / 2"
  using round_half_even_upper [of y] round_half_even_lower [of y] by linarith

declare ilog2.simps [simp del]

lemma ilog2_nonneg: "0 \<le> ilog2 n"
  by (induction n rule: ilog2.induct) (subst ilog2.simps, simp)

lemma ilog2_bounds:
  "1 \<le> n \<Longrightarrow> 2 ^ nat (ilog2 n) \<le> n \<and> n < 2 * 2 ^ nat (ilog2 n)"
proof (induction n rule: ilog2.induct)
  case (1 n)
  show ?case
  proof (cases "n \<le> 1")
    case True
    with "1.prems" have "n = 1" by simp
    then show ?thesis by (subst ilog2.simps, subst ilog2.simps) simp
  next
    case False
    then have h: "1 \<le> n div 2" by simp
    have il: "ilog2 n = 1 + ilog2 (n div 2)"
      using False by (subst ilog2.simps) simp
    have nn: "nat (1 + ilog2 (n div 2)) = Suc (nat (ilog2 (n div 2)))"
      using ilog2_nonneg [of "n div 2"] by simp
    from "1.IH" [OF False h]
    have lo: "2 ^ nat (ilog2 (n div 2)) \<le> n div 2"
      and hi: "n div 2 < 2 * 2 ^ nat (ilog2 (n div 2))"
      by simp_all
    have "2 * (n div 2) \<le> n" by simp
    with lo have a: "2 * 2 ^ nat (ilog2 (n div 2)) \<le> n" by linarith
    have "n < 2 * (n div 2) + 2" by presburger
    moreover from hi have "n div 2 + 1 \<le> 2 * 2 ^ nat (ilog2 (n div 2))" by simp
    ultimately have b: "n < 2 * (2 * 2 ^ nat (ilog2 (n div 2)))" by linarith
    show ?thesis using a b by (simp add: il nn)
  qed
qed

lemma pow2_pos: "0 < pow2 k"
  by (simp add: pow2_def)

lemma pow2_power_int: "pow2 k = power_int 2 k"
  by (simp add: pow2_def power_int_def power_one_over [symmetric] inverse_eq_divide)

lemma pow2_add: "pow2 (a + b) = pow2 a * pow2 b"
  by (simp add: pow2_power_int power_int_add)

lemma pow2_shift: "pow2 (a - 52) = pow2 a / 2 ^ 52"
proof -
  have "pow2 (a - 52) = pow2 a * pow2 (- 52)"
    using pow2_add [of a "- 52"] by simp
  then show ?thesis by (simp add: pow2_def)
qed

lemma pow2_nat: "0 \<le> k \<Longrightarrow> pow2 k = 2 ^ nat k"
  by (simp add: pow2_def)

lemma exponent_lower:
  assumes "0 < x"
  shows "pow2 (exponent x) \<le> x"
proof (cases "1 \<le> x")
  case True
  then have f: "1 \<le> \<lfloor>x\<rfloor>" by simp
  from ilog2_bounds [OF f] have "(2::int) ^ nat (ilog2 \<lfloor>x\<rfloor>) \<le> \<lfloor>x\<rfloor>" by simp
  then have "real_of_int (2 ^ nat (ilog2 \<lfloor>x\<rfloor>)) \<le> real_of_int \<lfloor>x\<rfloor>"
    by (simp only: of_int_le_iff)
  also have "\<dots> \<le> x" by simp
  finally have "2 ^ nat (ilog2 \<lfloor>x\<rfloor>) \<le> x" by simp
  then show ?thesis
    using True ilog2_nonneg [of "\<lfloor>x\<rfloor>"] by (simp add: exponent_def pow2_def)
next
  case False
  then have x1: "x < 1" by simp
  let ?y = "1 / x"
  let ?k = "ilog2 \<lfloor>?y\<rfloor>"
  have y1: "1 < ?y" using assms x1 by simp
  then have f: "1 \<le> \<lfloor>?y\<rfloor>" by simp
  have k0: "0 \<le> ?k" by (rule ilog2_nonneg)
  show ?thesis
  proof (cases "x * pow2 ?k = 1")
    case True
    then have "x = 1 / pow2 ?k" using pow2_pos [of ?k] by (simp add: field_simps)
    moreover have "pow2 (- ?k) = 1 / pow2 ?k"
      using pow2_add [of ?k "- ?k"] pow2_pos [of ?k] by (simp add: pow2_def field_simps)
    ultimately show ?thesis
      using False True by (simp add: exponent_def Let_def)
  next
    case ne: False
    from ilog2_bounds [OF f] have "\<lfloor>?y\<rfloor> < 2 * 2 ^ nat ?k" by simp
    then have "\<lfloor>?y\<rfloor> < 2 ^ (Suc (nat ?k))" by simp
    then have "?y < real_of_int (2 ^ (Suc (nat ?k)))"
      by (simp only: floor_less_iff)
    then have "?y < 2 ^ (Suc (nat ?k))" by simp
    then have "1 / 2 ^ (Suc (nat ?k)) < x"
      using assms by (simp add: field_simps)
    moreover have "pow2 (- ?k - 1) = 1 / 2 ^ (Suc (nat ?k))"
      using k0 by (simp add: pow2_def nat_add_distrib)
    ultimately show ?thesis
      using False ne by (simp add: exponent_def Let_def)
  qed
qed

lemma exponent_upper:
  assumes "0 < x"
  shows "x < pow2 (exponent x + 1)"
proof (cases "1 \<le> x")
  case True
  then have f: "1 \<le> \<lfloor>x\<rfloor>" by simp
  have k0: "0 \<le> ilog2 \<lfloor>x\<rfloor>" by (rule ilog2_nonneg)
  from ilog2_bounds [OF f] have "\<lfloor>x\<rfloor> < 2 * 2 ^ nat (ilog2 \<lfloor>x\<rfloor>)" by simp
  then have "\<lfloor>x\<rfloor> < 2 ^ Suc (nat (ilog2 \<lfloor>x\<rfloor>))" by simp
  then have "x < real_of_int (2 ^ Suc (nat (ilog2 \<lfloor>x\<rfloor>)))"
    by (simp only: floor_less_iff)
  then have "x < 2 ^ Suc (nat (ilog2 \<lfloor>x\<rfloor>))" by simp
  moreover have "pow2 (ilog2 \<lfloor>x\<rfloor> + 1) = 2 ^ Suc (nat (ilog2 \<lfloor>x\<rfloor>))"
    using k0 by (simp add: pow2_def nat_add_distrib)
  ultimately show ?thesis using True by (simp add: exponent_def)
next
  case False
  then have x1: "x < 1" by simp
  let ?y = "1 / x"
  let ?k = "ilog2 \<lfloor>?y\<rfloor>"
  have y1: "1 < ?y" using assms x1 by simp
  then have f: "1 \<le> \<lfloor>?y\<rfloor>" by simp
  have k0: "0 \<le> ?k" by (rule ilog2_nonneg)
  from ilog2_bounds [OF f] have "(2::int) ^ nat ?k \<le> \<lfloor>?y\<rfloor>" by simp
  then have "real_of_int (2 ^ nat ?k) \<le> real_of_int \<lfloor>?y\<rfloor>"
    by (simp only: of_int_le_iff)
  also have "\<dots> \<le> ?y" by simp
  finally have "2 ^ nat ?k \<le> ?y" by simp
  then have le: "x * 2 ^ nat ?k \<le> 1" using assms by (simp add: field_simps)
  have p: "pow2 ?k = 2 ^ nat ?k" using k0 by (simp add: pow2_def)
  show ?thesis
  proof (cases "x * pow2 ?k = 1")
    case True
    have "pow2 (- ?k + 1) = 2 * pow2 (- ?k)"
      using pow2_add [of "- ?k" 1] by (simp add: pow2_def)
    moreover have "pow2 (- ?k) * pow2 ?k = 1"
      using pow2_add [of "- ?k" ?k] by (simp add: pow2_def)
    ultimately have "pow2 (- ?k + 1) * pow2 ?k = 2" by simp
    with True have "x * pow2 ?k < pow2 (- ?k + 1) * pow2 ?k" by simp
    then have "x < pow2 (- ?k + 1)" using pow2_pos [of ?k] by simp
    then show ?thesis using False True by (simp add: exponent_def Let_def)
  next
    case ne: False
    with le p have "x * pow2 ?k < 1" by simp
    moreover have "pow2 (- ?k) * pow2 ?k = 1"
      using pow2_add [of "- ?k" ?k] by (simp add: pow2_def)
    ultimately have "x * pow2 ?k < pow2 (- ?k) * pow2 ?k" by simp
    then have "x < pow2 (- ?k)" using pow2_pos [of ?k] by simp
    then show ?thesis using False ne by (simp add: exponent_def Let_def)
  qed
qed

lemma pow2_mono: "a \<le> b \<Longrightarrow> pow2 a \<le> pow2 b"
  by (simp add: pow2_power_int power_int_increasing)

text \<open>
  \<open>fl x\<close> is a float: an integer of at most 53 bits (or \<open>2 ^ 53\<close>, when rounding
  carries into the next binade) times the spacing of the floats around \<open>x\<close>.
\<close>

lemma fl_significand:
  assumes "x \<noteq> 0"
  shows "\<exists>m. fl x = of_int m * pow2 (max (exponent \<bar>x\<bar>) (- 1022) - 52) \<and> \<bar>m\<bar> \<le> 2 ^ 53"
proof -
  let ?e = "max (exponent \<bar>x\<bar>) (- 1022)"
  let ?q = "pow2 (?e - 52)"
  let ?m = "round_half_even (x / ?q)"
  have q: "0 < ?q" by (rule pow2_pos)
  have fl: "fl x = of_int ?m * ?q"
    using assms by (simp add: fl_def Let_def)
  have "\<bar>x\<bar> < pow2 (exponent \<bar>x\<bar> + 1)"
    using exponent_upper [of "\<bar>x\<bar>"] assms by simp
  also have "\<dots> \<le> pow2 (?e + 1)" by (rule pow2_mono) simp
  finally have "\<bar>x\<bar> < pow2 (?e + 1)" .
  moreover have "pow2 (?e + 1) = pow2 ((?e - 52) + 53)"
    by (rule arg_cong [of _ _ pow2]) linarith
  moreover have "pow2 ((?e - 52) + 53) = ?q * pow2 53" by (rule pow2_add)
  moreover have "pow2 53 = 2 ^ 53" by (simp add: pow2_def)
  ultimately have "\<bar>x\<bar> < ?q * 2 ^ 53" by simp
  then have "\<bar>x\<bar> / ?q < 2 ^ 53" using q by (simp add: field_simps)
  then have b: "\<bar>x / ?q\<bar> < 2 ^ 53" using q by simp
  have "real_of_int ?m \<le> x / ?q + 1 / 2" by (rule round_half_even_upper)
  with b have "real_of_int ?m < 2 ^ 53 + 1 / 2" by linarith
  then have "real_of_int ?m < real_of_int (2 ^ 53 + 1)" by simp
  then have up: "?m \<le> 2 ^ 53" by (simp only: of_int_less_iff)
  have "x / ?q - 1 / 2 \<le> real_of_int ?m" by (rule round_half_even_lower)
  with b have "- (2 ^ 53) - 1 / 2 < real_of_int ?m" by linarith
  then have "real_of_int (- (2 ^ 53) - 1) < real_of_int ?m" by simp
  then have lo: "- (2 ^ 53) \<le> ?m" by (simp only: of_int_less_iff)
  from up lo have "\<bar>?m\<bar> \<le> 2 ^ 53" by simp
  with fl show ?thesis by blast
qed

lemma fl_error: "\<bar>fl x - x\<bar> \<le> \<bar>x\<bar> / 2 ^ 53 + 1 / 2 ^ 1075"
proof (cases "x = 0")
  case True
  then show ?thesis by (simp add: fl_def)
next
  case False
  let ?e = "max (exponent \<bar>x\<bar>) (- 1022)"
  let ?q = "pow2 (?e - 52)"
  have q: "0 < ?q" by (rule pow2_pos)
  have fl: "fl x = of_int (round_half_even (x / ?q)) * ?q"
    using False by (simp add: fl_def Let_def)
  have "\<bar>of_int (round_half_even (x / ?q)) - x / ?q\<bar> \<le> 1 / 2"
    by (rule round_half_even_abs)
  then have "\<bar>of_int (round_half_even (x / ?q)) - x / ?q\<bar> * ?q \<le> 1 / 2 * ?q"
    using q by (intro mult_right_mono) simp_all
  moreover have "\<bar>of_int (round_half_even (x / ?q)) - x / ?q\<bar> * ?q = \<bar>fl x - x\<bar>"
  proof -
    have "\<bar>of_int (round_half_even (x / ?q)) - x / ?q\<bar> * ?q
          = \<bar>(of_int (round_half_even (x / ?q)) - x / ?q) * ?q\<bar>"
      using q by (simp add: abs_mult)
    also have "(of_int (round_half_even (x / ?q)) - x / ?q) * ?q = fl x - x"
      using q by (simp add: fl field_simps)
    finally show ?thesis .
  qed
  ultimately have half: "\<bar>fl x - x\<bar> \<le> ?q / 2" by simp
  have "?q \<le> \<bar>x\<bar> / 2 ^ 52 + 1 / 2 ^ 1074"
  proof (cases "- 1022 \<le> exponent \<bar>x\<bar>")
    case True
    then have "?q = pow2 (exponent \<bar>x\<bar>) / 2 ^ 52" by (simp add: max_def pow2_shift)
    also have "\<dots> \<le> \<bar>x\<bar> / 2 ^ 52"
      using exponent_lower [of "\<bar>x\<bar>"] False by (simp add: divide_right_mono)
    finally show ?thesis by simp
  next
    case False
    then have m: "?e = - 1022" by (simp add: max_def)
    have "?q = pow2 (- 1074)" unfolding m by simp
    also have "\<dots> = 1 / 2 ^ 1074" by (simp add: pow2_def)
    finally have "?q = 1 / 2 ^ 1074" .
    moreover have "0 \<le> \<bar>x\<bar> / 2 ^ 52" by simp
    ultimately show ?thesis by linarith
  qed
  with half show ?thesis by simp
qed

lemma to_float_Some:
  assumes "\<bar>x\<bar> \<le> 10 ^ 13"
  shows "to_float x = Some (fl x)"
proof -
  have "\<bar>fl x\<bar> \<le> \<bar>x\<bar> + \<bar>fl x - x\<bar>" by simp
  also have "\<dots> \<le> \<bar>x\<bar> + (\<bar>x\<bar> / 2 ^ 53 + 1 / 2 ^ 1075)" using fl_error [of x] by simp
  also have "\<dots> \<le> 10 ^ 13 + (10 ^ 13 / 2 ^ 53 + 1 / 2 ^ 1075)"
    using assms by (intro add_mono divide_right_mono) simp_all
  also have "\<dots> < 2 ^ 1024" by simp
  finally show ?thesis by (simp add: to_float_def)
qed

lemma fl_near_price:
  assumes "\<bar>x\<bar> \<le> 100000000004"
  shows "to_float x = Some (fl x) \<and> \<bar>fl x - x\<bar> \<le> 12 / 1000000"
proof -
  have "\<bar>x\<bar> \<le> 10 ^ 13" using assms by simp
  then have a: "to_float x = Some (fl x)" by (rule to_float_Some)
  have "\<bar>fl x - x\<bar> \<le> \<bar>x\<bar> / 2 ^ 53 + 1 / 2 ^ 1075" by (rule fl_error)
  also have "\<dots> \<le> 100000000004 / 2 ^ 53 + 1 / 2 ^ 1075"
    using assms by (intro add_mono divide_right_mono) simp_all
  also have "\<dots> \<le> 12 / 1000000" by simp
  finally show ?thesis using a by simp
qed

lemma decimal_near:
  "\<bar>real_of_int (round_half_even (x * 10 ^ 5)) / 10 ^ 5 - x\<bar> \<le> 1 / 200000"
proof -
  let ?k = "real_of_int (round_half_even (x * 10 ^ 5))"
  have "?k \<le> x * 10 ^ 5 + 1 / 2" by (rule round_half_even_upper)
  then have "?k / 10 ^ 5 \<le> (x * 10 ^ 5 + 1 / 2) / 10 ^ 5"
    by (simp add: divide_right_mono)
  then have up: "?k / 10 ^ 5 \<le> x + 1 / 200000" by (simp add: field_simps)
  have "x * 10 ^ 5 - 1 / 2 \<le> ?k" by (rule round_half_even_lower)
  then have "(x * 10 ^ 5 - 1 / 2) / 10 ^ 5 \<le> ?k / 10 ^ 5"
    by (simp add: divide_right_mono)
  then have lo: "x - 1 / 200000 \<le> ?k / 10 ^ 5" by (simp add: field_simps)
  from up lo show ?thesis by linarith
qed

lemma py_round_near_price:
  assumes "\<bar>x\<bar> \<le> 100000000003"
  shows "\<exists>r. py_round (Some x) 5 = Some r \<and> \<bar>r - x\<bar> \<le> 17 / 1000000"
proof -
  let ?d = "real_of_int (round_half_even (x * 10 ^ 5)) / 10 ^ 5"
  have d: "\<bar>?d - x\<bar> \<le> 1 / 200000" by (rule decimal_near)
  then have "\<bar>?d\<bar> \<le> 100000000004" using assms by linarith
  from fl_near_price [OF this]
  have f: "to_float ?d = Some (fl ?d)" and e: "\<bar>fl ?d - ?d\<bar> \<le> 12 / 1000000"
    by simp_all
  from d e have "\<bar>fl ?d - x\<bar> \<le> 17 / 1000000" by linarith
  with f show ?thesis by (simp add: py_round_def)
qed

lemma pips_as_price:
  assumes "1 \<le> k" and "k \<le> 100" and "m = 100 \<or> m = 10000"
  shows "\<exists>a. fdiv (Some k) m = Some a \<and> 99 / 1000000 \<le> a \<and> a \<le> 2"
proof -
  have lo: "1 / 10000 \<le> k / m" and hi: "k / m \<le> 1"
    using assms by (auto simp: field_simps)
  have "\<bar>fl (k / m) - k / m\<bar> \<le> \<bar>k / m\<bar> / 2 ^ 53 + 1 / 2 ^ 1075" by (rule fl_error)
  also have "\<dots> \<le> 1 / 2 ^ 53 + 1 / 2 ^ 1075"
    using lo hi by (intro add_mono divide_right_mono) simp_all
  also have "\<dots> \<le> 1 / 1000000" by simp
  finally have e: "\<bar>fl (k / m) - k / m\<bar> \<le> 1 / 1000000" .
  have "\<bar>k / m\<bar> \<le> 10 ^ 13" using lo hi by simp
  then have f: "to_float (k / m) = Some (fl (k / m))" by (rule to_float_Some)
  from e lo hi have "99 / 1000000 \<le> fl (k / m) \<and> fl (k / m) \<le> 2" by linarith
  with f show ?thesis by (simp add: fdiv_def)
qed

lemma level_below:
  assumes "0 < e" and "e \<le> 100000000000" and "1 \<le> k" and "k \<le> 100"
      and "m = 100 \<or> m = 10000"
  shows "\<exists>s. py_round (fsub (Some e) (fdiv (Some k) m)) 5 = Some s \<and> s < e"
proof -
  from pips_as_price [OF assms(3,4,5)] obtain a where
    a: "fdiv (Some k) m = Some a" "99 / 1000000 \<le> a" "a \<le> 2"
    by blast
  have "\<bar>e - a\<bar> \<le> 100000000004" using assms(1,2) a(2,3) by linarith
  from fl_near_price [OF this]
  have f: "to_float (e - a) = Some (fl (e - a))"
    and fe: "\<bar>fl (e - a) - (e - a)\<bar> \<le> 12 / 1000000"
    by simp_all
  from fe have "\<bar>fl (e - a)\<bar> \<le> 100000000003"
    using assms(1,2) a(2,3) by linarith
  from py_round_near_price [OF this] obtain r where
    r: "py_round (Some (fl (e - a))) 5 = Some r"
    and re: "\<bar>r - fl (e - a)\<bar> \<le> 17 / 1000000"
    by blast
  from fe re a(2) have "r < e" by linarith
  moreover have "py_round (fsub (Some e) (fdiv (Some k) m)) 5 = Some r"
    using a(1) f r by (simp add: fsub_def)
  ultimately show ?thesis by blast
qed

lemma level_above:
  assumes "0 < e" and "e \<le> 100000000000" and "1 \<le> k" and "k \<le> 100"
      and "m = 100 \<or> m = 10000"
  shows "\<exists>t. py_round (fadd (Some e) (fdiv (Some k) m)) 5 = Some t \<and> e < t"
proof -
  from pips_as_price [OF assms(3,4,5)] obtain a where
    a: "fdiv (Some k) m = Some a" "99 / 1000000 \<le> a" "a \<le> 2"
    by blast
  have "\<bar>e + a\<bar> \<le> 100000000004" using assms(1,2) a(2,3) by linarith
  from fl_near_price [OF this]
  have f: "to_float (e + a) = Some (fl (e + a))"
    and fe: "\<bar>fl (e + a) - (e + a)\<bar> \<le> 12 / 1000000"
    by simp_all
  from fe have "\<bar>fl (e + a)\<bar> \<le> 100000000003"
    using assms(1,2) a(2,3) by linarith
  from py_round_near_price [OF this] obtain r where
    r: "py_round (Some (fl (e + a))) 5 = Some r"
    and re: "\<bar>r - fl (e + a)\<bar> \<le> 17 / 1000000"
    by blast
  from fe re a(2) have "e < r" by linarith
  moreover have "py_round (fadd (Some e) (fdiv (Some k) m)) 5 = Some r"
    using a(1) f r by (simp add: fadd_def)
  ultimately show ?thesis by blast
qed

lemma pip_multiplier_cases: "pip_multiplier p = 100 \<or> pip_multiplier p = 10000"
  by (simp add: pip_multiplier_def)

section \<open>Price levels\<close>

lemmas float_eval =
  calculate_stop_loss_take_profit_def pip_multiplier_def py_round_def
  fsub_def fadd_def fmul_def fdiv_def to_float_def fl_def exponent_def pow2_def
  round_half_even_def Let_def ilog2.simps

lemma calc_example_buy:
  "calculate_stop_loss_take_profit (Some (fl 1.1)) ''BUY'' (Some 5) (Some 15) ''EUR/USD''
     = (Some (fl 1.0995), Some (fl 1.1015))"
  by (simp add: float_eval)

lemma calc_example_sell:
  "calculate_stop_loss_take_profit (Some (fl 151.2)) ''SELL'' (Some 5) (Some 15) ''USD/JPY''
     = (Some (fl 151.25), Some (fl 151.05))"
  by (simp add: float_eval)

lemma calc_example_digits:
  "calculate_stop_loss_take_profit (Some (fl 1.234567)) ''BUY'' (Some 5) (Some 15) ''EUR/USD''
     = (Some (fl 1.23407), Some (fl 1.23607))"
  by (simp add: float_eval)

lemma calc_example_tie:
  "calculate_stop_loss_take_profit (Some (fl 1.0002)) ''BUY'' (Some 3.25) (Some 3.25) ''EUR/USD''
     = (Some (fl 0.99987), Some (fl 1.00052))"
  by (simp add: float_eval)

lemma calc_example_even:
  "calculate_stop_loss_take_profit (Some 0.265625) ''BUY'' (Some 25) (Some 25) ''USD/JPY''
     = (Some (fl 0.01562), Some (fl 0.51562))
   \<and> calculate_stop_loss_take_profit (Some 0.296875) ''BUY'' (Some 25) (Some 25) ''USD/JPY''
     = (Some (fl 0.04688), Some (fl 0.54688))"
  by (simp add: float_eval)

lemma fl_tenth: "fl (1 / 10) = 3602879701896397 / 36028797018963968"
  by (simp add: float_eval)

lemma to_float_near:
  assumes "\<bar>z\<bar> \<le> 10 ^ 13"
  shows "\<exists>r. to_float z = Some r \<and> \<bar>r - z\<bar> \<le> \<bar>z\<bar> / 2 ^ 53 + 1 / 2 ^ 1075"
  using to_float_Some [OF assms] fl_error [of z] by simp

lemma py_round_decimal:
  "\<exists>k. py_round (Some z) 5 = to_float (real_of_int k / 10 ^ 5)
       \<and> \<bar>real_of_int k - z * 10 ^ 5\<bar> \<le> 1 / 2"
  unfolding py_round_def using round_half_even_abs [of "z * 10 ^ 5"] by auto

text \<open>
  Claim C5. The pip scale is 100 for a pair whose name contains JPY and for XAU/USD, and
  10000 for every other pair. The cases on the direction are tried in the order of the
  source: a direction containing BUY gives the stop loss \<open>entry - sl/scale\<close> and the
  take profit \<open>entry + tp/scale\<close>; otherwise a direction containing SELL gives the
  mirror image; any other direction gives \<open>entry * 0.995\<close> and \<open>entry * 1.005\<close>.
  The directions SELL and STRONG_SELL of the analyzers contain SELL and not BUY, so they
  take the second case. The arithmetic is that of floats: a difference, sum, product or
  quotient is the float nearest to the exact result, which up to \<open>10 ^ 13\<close> is finite
  and within the relative error \<open>1 / 2 ^ 53\<close> (the float for 0.1 is
  3602879701896397 / 36028797018963968). Each level is then rounded to 5 decimal places:
  it is the float nearest to \<open>k / 10 ^ 5\<close> for an integer \<open>k\<close> within one half of
  \<open>level * 10 ^ 5\<close>. Entry 1.10000, BUY, 5 and 15 pips at scale 10000 gives 1.09950 and
  1.10150; entry 151.200, SELL, 5 and 15 pips at scale 100 gives 151.250 and 151.050. An
  entry with more decimals is cut to five: 1.234567 gives 1.23407 and 1.23607. With entry
  1.0002 and 3.25 pips both ways the levels in floats lie below the decimal ties 0.999875
  and 1.000525, and round to 0.99987 and 1.00052. At an exact tie the even neighbour is
  taken: at scale 100 with 25 pips both ways, entry 0.265625 has the levels 0.015625 and
  0.515625, which round to 0.01562 and 0.51562, and entry 0.296875 has the levels
  0.046875 and 0.546875, which round to 0.04688 and 0.54688.
\<close>

theorem price_levels:
  "pip_multiplier p = (if str_in ''JPY'' p \<or> p = ''XAU/USD'' then 100 else 10000)
   \<and> (str_in ''BUY'' d \<longrightarrow>
        calculate_stop_loss_take_profit e d sl tp p =
          (py_round (fsub e (fdiv sl (pip_multiplier p))) 5,
           py_round (fadd e (fdiv tp (pip_multiplier p))) 5))
   \<and> (\<not> str_in ''BUY'' d \<and> str_in ''SELL'' d \<longrightarrow>
        calculate_stop_loss_take_profit e d sl tp p =
          (py_round (fadd e (fdiv sl (pip_multiplier p))) 5,
           py_round (fsub e (fdiv tp (pip_multiplier p))) 5))
   \<and> (\<not> str_in ''BUY'' d \<and> \<not> str_in ''SELL'' d \<longrightarrow>
        calculate_stop_loss_take_profit e d sl tp p =
          (py_round (fmul e (Some (fl 0.995))) 5, py_round (fmul e (Some (fl 1.005))) 5))
   \<and> \<not> str_in ''BUY'' ''SELL'' \<and> str_in ''SELL'' ''SELL''
   \<and> \<not> str_in ''BUY'' ''STRONG_SELL'' \<and> str_in ''SELL'' ''STRONG_SELL''
   \<and> fsub (Some x) (Some y) = to_float (x - y)
   \<and> fadd (Some x) (Some y) = to_float (x + y)
   \<and> fmul (Some x) (Some y) = to_float (x * y)
   \<and> fdiv (Some x) n = to_float (x / n)
   \<and> (\<bar>z\<bar> \<le> 10 ^ 13 \<longrightarrow>
        (\<exists>r. to_float z = Some r \<and> \<bar>r - z\<bar> \<le> \<bar>z\<bar> / 2 ^ 53 + 1 / 2 ^ 1075))
   \<and> (\<exists>k. py_round (Some z) 5 = to_float (real_of_int k / 10 ^ 5)
           \<and> \<bar>real_of_int k - z * 10 ^ 5\<bar> \<le> 1 / 2)
   \<and> fl (1 / 10) = 3602879701896397 / 36028797018963968
   \<and> calculate_stop_loss_take_profit (Some (fl 1.1)) ''BUY'' (Some 5) (Some 15) ''EUR/USD''
        = (Some (fl 1.0995), Some (fl 1.1015))
   \<and> calculate_stop_loss_take_profit (Some (fl 151.2)) ''SELL'' (Some 5) (Some 15) ''USD/JPY''
        = (Some (fl 151.25), Some (fl 151.05))
   \<and> calculate_stop_loss_take_profit (Some (fl 1.234567)) ''BUY'' (Some 5) (Some 15) ''EUR/USD''
        = (Some (fl 1.23407), Some (fl 1.23607))
   \<and> calculate_stop_loss_take_profit (Some (fl 1.0002)) ''BUY'' (Some 3.25) (Some 3.25) ''EUR/USD''
        = (Some (fl 0.99987), Some (fl 1.00052))
   \<and> calculate_stop_loss_take_profit (Some 0.265625) ''BUY'' (Some 25) (Some 25) ''USD/JPY''
        = (Some (fl 0.01562), Some (fl 0.51562))
   \<and> calculate_stop_loss_take_profit (Some 0.296875) ''BUY'' (Some 25) (Some 25) ''USD/JPY''
        = (Some (fl 0.04688), Some (fl 0.54688))"
proof -
  have a: "pip_multiplier p = (if str_in ''JPY'' p \<or> p = ''XAU/USD'' then 100 else 10000)"
    by (simp add: pip_multiplier_def)
  have b: "str_in ''BUY'' d \<longrightarrow>
        calculate_stop_loss_take_profit e d sl tp p =
          (py_round (fsub e (fdiv sl (pip_multiplier p))) 5,
           py_round (fadd e (fdiv tp (pip_multiplier p))) 5)"
    by (simp add: calculate_stop_loss_take_profit_def)
  have c: "\<not> str_in ''BUY'' d \<and> str_in ''SELL'' d \<longrightarrow>
        calculate_stop_loss_take_profit e d sl tp p =
          (py_round (fadd e (fdiv sl (pip_multiplier p))) 5,
           py_round (fsub e (fdiv tp (pip_multiplier p))) 5)"
    by (simp add: calculate_stop_loss_take_profit_def)
  have d: "\<not> str_in ''BUY'' d \<and> \<not> str_in ''SELL'' d \<longrightarrow>
        calculate_stop_loss_take_profit e d sl tp p =
          (py_round (fmul e (Some (fl 0.995))) 5, py_round (fmul e (Some (fl 1.005))) 5)"
    by (simp add: calculate_stop_loss_take_profit_def)
  have s: "\<not> str_in ''BUY'' ''SELL'' \<and> str_in ''SELL'' ''SELL''
     \<and> \<not> str_in ''BUY'' ''STRONG_SELL'' \<and> str_in ''SELL'' ''STRONG_SELL''"
    by simp
  have f: "fsub (Some x) (Some y) = to_float (x - y)
     \<and> fadd (Some x) (Some y) = to_float (x + y)
     \<and> fmul (Some x) (Some y) = to_float (x * y)
     \<and> fdiv (Some x) n = to_float (x / n)"
    by (simp add: fsub_def fadd_def fmul_def fdiv_def)
  have g: "\<bar>z\<bar> \<le> 10 ^ 13 \<longrightarrow>
        (\<exists>r. to_float z = Some r \<and> \<bar>r - z\<bar> \<le> \<bar>z\<bar> / 2 ^ 53 + 1 / 2 ^ 1075)"
    using to_float_near [of z] by blast
  note h = py_round_decimal [of z]
  show ?thesis
    using a b c d s f g h fl_tenth calc_example_buy calc_example_sell calc_example_digits
      calc_example_tie calc_example_even
    by blast
qed

theorem price_levels_witness:
  "str_in ''BUY'' ''STRONG_BUY''
   \<and> calculate_stop_loss_take_profit (Some 2165.25) ''STRONG_BUY'' (Some 5) (Some 20) ''XAU/USD''
       = (Some (fl 2165.2), Some (fl 2165.45))
   \<and> \<not> str_in ''BUY'' ''STRONG_SELL'' \<and> str_in ''SELL'' ''STRONG_SELL''
   \<and> calculate_stop_loss_take_profit (Some (fl 1.085)) ''STRONG_SELL'' (Some 5) (Some 15) ''GBP/USD''
       = (Some (fl 1.0855), Some (fl 1.0835))
   \<and> \<not> str_in ''BUY'' ''NEUTRAL'' \<and> \<not> str_in ''SELL'' ''NEUTRAL''
   \<and> calculate_stop_loss_take_profit (Some 2) ''NEUTRAL'' (Some 5) (Some 15) ''EUR/JPY''
       = (Some (fl 1.99), Some (fl 2.01))
   \<and> \<bar>1.1 :: real\<bar> \<le> 10 ^ 13
   \<and> (\<exists>r. to_float 1.1 = Some r \<and> \<bar>r - 1.1\<bar> \<le> \<bar>1.1\<bar> / 2 ^ 53 + 1 / 2 ^ 1075)"
proof -
  have a: "calculate_stop_loss_take_profit (Some 2165.25) ''STRONG_BUY'' (Some 5) (Some 20)
        ''XAU/USD''
      = (py_round (fsub (Some 2165.25) (fdiv (Some 5) 100)) 5,
         py_round (fadd (Some 2165.25) (fdiv (Some 20) 100)) 5)"
    using price_levels [of "''XAU/USD''" "''STRONG_BUY''" "Some 2165.25" "Some 5" "Some 20" 0 0 1 0]
    by simp
  have b: "calculate_stop_loss_take_profit (Some (fl 1.085)) ''STRONG_SELL'' (Some 5) (Some 15)
        ''GBP/USD''
      = (py_round (fadd (Some (fl 1.085)) (fdiv (Some 5) 10000)) 5,
         py_round (fsub (Some (fl 1.085)) (fdiv (Some 15) 10000)) 5)"
    using price_levels [of "''GBP/USD''" "''STRONG_SELL''" "Some (fl 1.085)" "Some 5" "Some 15" 0 0 1 0]
    by simp
  have c: "calculate_stop_loss_take_profit (Some 2) ''NEUTRAL'' (Some 5) (Some 15) ''EUR/JPY''
      = (py_round (fmul (Some 2) (Some (fl 0.995))) 5,
         py_round (fmul (Some 2) (Some (fl 1.005))) 5)"
    using price_levels [of "''EUR/JPY''" "''NEUTRAL''" "Some 2" "Some 5" "Some 15" 0 0 1 0]
    by simp
  have r: "\<exists>r. to_float 1.1 = Some r \<and> \<bar>r - 1.1\<bar> \<le> \<bar>1.1\<bar> / 2 ^ 53 + 1 / 2 ^ 1075"
    using price_levels [of "''EUR/JPY''" "''NEUTRAL''" "Some 2" "Some 5" "Some 15" 0 0 1 "1.1"]
    by simp
  have a': "py_round (fsub (Some 2165.25) (fdiv (Some 5) 100)) 5 = Some (fl 2165.2)
      \<and> py_round (fadd (Some 2165.25) (fdiv (Some 20) 100)) 5 = Some (fl 2165.45)"
    by (simp add: float_eval)
  have b': "py_round (fadd (Some (fl 1.085)) (fdiv (Some 5) 10000)) 5 = Some (fl 1.0855)
      \<and> py_round (fsub (Some (fl 1.085)) (fdiv (Some 15) 10000)) 5 = Some (fl 1.0835)"
    by (simp add: float_eval)
  have c': "py_round (fmul (Some 2) (Some (fl 0.995))) 5 = Some (fl 1.99)
      \<and> py_round (fmul (Some 2) (Some (fl 1.005))) 5 = Some (fl 2.01)"
    by (simp add: float_eval)
  have s: "str_in ''BUY'' ''STRONG_BUY'' \<and> \<not> str_in ''BUY'' ''STRONG_SELL''
      \<and> str_in ''SELL'' ''STRONG_SELL'' \<and> \<not> str_in ''BUY'' ''NEUTRAL''
      \<and> \<not> str_in ''SELL'' ''NEUTRAL'' \<and> \<bar>1.1 :: real\<bar> \<le> 10 ^ 13"
    by simp
  show ?thesis
    unfolding a b c using a' b' c' r s by blast
qed

text \<open>
  Claim C10 says that every positive entry price, with a stop loss and a take profit of
  at least one pip, gives \<open>stop_loss < entry < take_profit\<close> for BUY and the
  mirrored order for SELL. On floats a pip of 0.0001 is absorbed by a large entry: the
  floats around 1200000000000 are 1/4096 apart, so with BUY, 1 and 5 pips, the stop loss
  equals the entry; around 100000000000000 they are 1/64 apart, and both levels equal
  the entry, for BUY and for SELL.
\<close>

theorem price_levels_lost_on_large_entry:
  "(0 :: real) < 1200000000000 \<and> (1 :: real) \<le> 1 \<and> (1 :: real) \<le> 5
   \<and> str_in ''BUY'' ''BUY''
   \<and> fl 1200000000000 = 1200000000000
   \<and> calculate_stop_loss_take_profit (Some 1200000000000) ''BUY'' (Some 1) (Some 5) ''EUR/USD''
        = (Some 1200000000000, Some (2457600000000001 / 2048))
   \<and> fl 100000000000000 = 100000000000000
   \<and> calculate_stop_loss_take_profit (Some 100000000000000) ''BUY'' (Some 1) (Some 5) ''EUR/USD''
        = (Some 100000000000000, Some 100000000000000)
   \<and> \<not> str_in ''BUY'' ''SELL'' \<and> str_in ''SELL'' ''SELL''
   \<and> calculate_stop_loss_take_profit (Some 100000000000000) ''SELL'' (Some 1) (Some 5) ''EUR/USD''
        = (Some 100000000000000, Some 100000000000000)"
  by (simp add: float_eval)

text \<open>
  Claim C10, amended. For an entry price above 0 and up to 100000000000, a stop loss of
  1 to 50 pips and a take profit of 1 to 100 pips (the settings commands accept 1 to 50
  and 5 to 100), both levels are finite floats; a direction containing BUY gives
  \<open>stop_loss < entry < take_profit\<close>, and a direction that reaches the SELL case (one
  containing SELL and not BUY, as SELL and STRONG_SELL do) gives
  \<open>take_profit < entry < stop_loss\<close>. One pip is at least 0.0001 less the rounding of
  the quotient, and up to that entry the float operations and the rounding to 5 decimal
  places together move a level by less than 0.00003.
\<close>

theorem price_levels_ordered:
  assumes "0 < e" and "e \<le> 100000000000"
      and "1 \<le> sl" and "sl \<le> 50" and "1 \<le> tp" and "tp \<le> 100"
  shows "(str_in ''BUY'' d \<longrightarrow>
          (\<exists>s t. calculate_stop_loss_take_profit (Some e) d (Some sl) (Some tp) p = (Some s, Some t)
                 \<and> s < e \<and> e < t))
       \<and> (\<not> str_in ''BUY'' d \<and> str_in ''SELL'' d \<longrightarrow>
          (\<exists>s t. calculate_stop_loss_take_profit (Some e) d (Some sl) (Some tp) p = (Some s, Some t)
                 \<and> t < e \<and> e < s))
       \<and> \<not> str_in ''BUY'' ''SELL'' \<and> str_in ''SELL'' ''SELL''
       \<and> \<not> str_in ''BUY'' ''STRONG_SELL'' \<and> str_in ''SELL'' ''STRONG_SELL''"
proof -
  have sl100: "sl \<le> 100" using assms(4) by simp
  note m = pip_multiplier_cases [of p]
  from level_below [OF assms(1,2,3) sl100 m] obtain s1 where
    s1: "py_round (fsub (Some e) (fdiv (Some sl) (pip_multiplier p))) 5 = Some s1" "s1 < e"
    by blast
  from level_above [OF assms(1,2,5,6) m] obtain t1 where
    t1: "py_round (fadd (Some e) (fdiv (Some tp) (pip_multiplier p))) 5 = Some t1" "e < t1"
    by blast
  from level_above [OF assms(1,2,3) sl100 m] obtain s2 where
    s2: "py_round (fadd (Some e) (fdiv (Some sl) (pip_multiplier p))) 5 = Some s2" "e < s2"
    by blast
  from level_below [OF assms(1,2,5,6) m] obtain t2 where
    t2: "py_round (fsub (Some e) (fdiv (Some tp) (pip_multiplier p))) 5 = Some t2" "t2 < e"
    by blast
  show ?thesis
    using s1 t1 s2 t2 by (simp add: calculate_stop_loss_take_profit_def)
qed

theorem price_levels_ordered_witness:
  "(0 :: real) < 2476979795053773 / 2251799813685248
   \<and> (2476979795053773 / 2251799813685248 :: real) \<le> 100000000000
   \<and> (1 :: real) \<le> 5 \<and> (5 :: real) \<le> 50 \<and> (1 :: real) \<le> 15 \<and> (15 :: real) \<le> 100
   \<and> str_in ''BUY'' ''BUY''
   \<and> calculate_stop_loss_take_profit (Some (2476979795053773 / 2251799813685248)) ''BUY''
        (Some 5) (Some 15) ''EUR/USD'' = (Some (fl 1.0995), Some (fl 1.1015))
   \<and> fl 1.0995 < 2476979795053773 / 2251799813685248
   \<and> 2476979795053773 / 2251799813685248 < fl 1.1015
   \<and> \<not> str_in ''BUY'' ''SELL'' \<and> str_in ''SELL'' ''SELL''
   \<and> (\<exists>s t. calculate_stop_loss_take_profit (Some 100000000000) ''SELL'' (Some 1) (Some 1)
        ''EUR/USD'' = (Some s, Some t) \<and> t < 100000000000 \<and> 100000000000 < s)"
  using price_levels_ordered [of "2476979795053773 / 2251799813685248" 5 15 "''BUY''" "''EUR/USD''"]
    price_levels_ordered [of 100000000000 1 1 "''SELL''" "''EUR/USD''"]
  by (simp add: float_eval)

section \<open>Gathering a batch and the loop of the scan\<close>

declare scan_loop.simps [simp del]
declare spec_batches.simps [simp del]

lemma gather_fold:
  "length slots = length rs \<Longrightarrow>
   fold (\<lambda>i slots. if i < length rs then slots[i := Some (rs ! i)] else slots) c slots =
     map (\<lambda>j. if j \<in> set c then Some (rs ! j) else slots ! j) [0..<length rs]"
proof (induction c arbitrary: slots)
  case Nil
  then show ?case using map_nth [of slots] by simp
next
  case (Cons i c)
  let ?s = "if i < length rs then slots[i := Some (rs ! i)] else slots"
  have len: "length ?s = length rs" using Cons.prems by simp
  have "fold (\<lambda>i slots. if i < length rs then slots[i := Some (rs ! i)] else slots) (i # c) slots
        = map (\<lambda>j. if j \<in> set c then Some (rs ! j) else ?s ! j) [0..<length rs]"
    using Cons.IH [OF len] by simp
  also have "\<dots> = map (\<lambda>j. if j \<in> set (i # c) then Some (rs ! j) else slots ! j) [0..<length rs]"
    using Cons.prems by (intro map_cong) (auto simp: nth_list_update)
  finally show ?case .
qed

lemma gather_eq:
  "gather c rs = map (\<lambda>j. if j \<in> set c then Some (rs ! j) else None) [0..<length rs]"
  unfolding gather_def by (subst gather_fold) (auto intro!: map_cong)


lemma gather_elem:
  "x \<in> set (gather c rs) \<Longrightarrow> x = None \<or> (\<exists>r\<in>set rs. x = Some r)"
  unfolding gather_eq by (auto split: if_splits)



lemma set_map_filter: "set (List.map_filter f xs) = {y. \<exists>x\<in>set xs. f x = Some y}"
  by (induction xs) (auto split: option.splits)

lemma scan_loop_trace:
  "snd (scan_loop an c thr ps i acc tr) =
     tr @ concat (map (\<lambda>b. [Gather b, Sleep 1]) (spec_batches (drop i ps)))"
proof (induction an c thr ps i acc tr rule: scan_loop.induct)
  case (1 an c thr ps i acc tr)
  show ?case
  proof (cases "i < length ps")
    case True
    then have ne: "drop i ps \<noteq> []" by simp
    have sb: "spec_batches (drop i ps) = take 3 (drop i ps) # spec_batches (drop (i + 3) ps)"
      using ne by (subst spec_batches.simps) (simp add: add.commute)
    show ?thesis
      using True 1
      by (subst scan_loop.simps) (simp add: Let_def sb batch_size_def)
  next
    case False
    then show ?thesis
      by (subst scan_loop.simps, subst spec_batches.simps) simp
  qed
qed

lemma scan_loop_signals_subset:
  "set (fst (scan_loop an c thr ps i acc tr)) \<subseteq>
     set acc \<union> {s. \<exists>p\<in>set ps. an p = Some s \<and> thr \<le> confidence s}"
proof (induction an c thr ps i acc tr rule: scan_loop.induct)
  case (1 an c thr ps i acc tr)
  show ?case
  proof (cases "i < length ps")
    case True
    let ?batch = "take batch_size (drop i ps)"
    let ?new = "List.map_filter (passes thr) (gather (c i) (map an ?batch))"
    have new: "set ?new \<subseteq> {s. \<exists>p\<in>set ps. an p = Some s \<and> thr \<le> confidence s}"
    proof
      fix s assume "s \<in> set ?new"
      then obtain r where r: "r \<in> set (gather (c i) (map an ?batch))" "passes thr r = Some s"
        by (auto simp: set_map_filter)
      from gather_elem [OF r(1)] r(2) obtain p where "p \<in> set ?batch" "r = Some (an p)"
        by (auto simp: passes_def)
      moreover have "set ?batch \<subseteq> set ps"
        by (meson set_take_subset set_drop_subset subset_trans)
      ultimately show "s \<in> {s. \<exists>p\<in>set ps. an p = Some s \<and> thr \<le> confidence s}"
        using r(2) by (auto simp: passes_def split: option.splits if_splits)
    qed
    have "set (fst (scan_loop an c thr ps i acc tr)) \<subseteq>
          set (acc @ ?new) \<union> {s. \<exists>p\<in>set ps. an p = Some s \<and> thr \<le> confidence s}"
      using True 1 by (subst scan_loop.simps) (simp add: Let_def)
    then show ?thesis using new by auto
  next
    case False
    then show ?thesis by (subst scan_loop.simps) simp
  qed
qed


section \<open>The analysis of one pair\<close>

lemma clamp_near: "\<bar>min 100 (max 0 u) - min 100 (max 0 v)\<bar> \<le> \<bar>u - v\<bar>"
  for u v :: real
  by (auto simp: min_def max_def)

lemma fl_seven_tenths: "\<bar>fl 0.7 - 0.7\<bar> \<le> 1 / 10000000000000000 \<and> 0 \<le> fl 0.7 \<and> fl 0.7 \<le> 0.71"
  by (simp add: float_eval)

lemma fl_three_tenths: "\<bar>fl 0.3 - 0.3\<bar> \<le> 1 / 10000000000000000 \<and> 0 \<le> fl 0.3 \<and> fl 0.3 \<le> 0.31"
  by (simp add: float_eval)

lemma fl_small:
  assumes "\<bar>x\<bar> \<le> 102"
  shows "\<bar>fl x - x\<bar> \<le> 12 / 1000000000000000"
proof -
  have "\<bar>fl x - x\<bar> \<le> \<bar>x\<bar> / 2 ^ 53 + 1 / 2 ^ 1075" by (rule fl_error)
  also have "\<dots> \<le> 102 / 2 ^ 53 + 1 / 2 ^ 1075"
    using assms by (intro add_mono divide_right_mono) simp_all
  also have "\<dots> \<le> 12 / 1000000000000000" by simp
  finally show ?thesis .
qed

lemma scaled_near:
  assumes "0 \<le> t" and "t \<le> 100" and "\<bar>c - k\<bar> \<le> 1 / 10000000000000000" and "0 \<le> c" and "c \<le> 1"
  shows "\<bar>fl (t * c) - t * k\<bar> \<le> 22 / 1000000000000000 \<and> \<bar>fl (t * c)\<bar> \<le> 101"
proof -
  have "\<bar>t * c - t * k\<bar> = t * \<bar>c - k\<bar>"
    using assms(1) by (simp add: abs_mult right_diff_distrib [symmetric])
  also have "\<dots> \<le> 100 * (1 / 10000000000000000)"
    using assms(1,2,3) by (intro mult_mono) simp_all
  finally have a: "\<bar>t * c - t * k\<bar> \<le> 1 / 100000000000000" by simp
  have "t * c \<le> 100 * 1" using assms by (intro mult_mono) simp_all
  moreover have "0 \<le> t * c" using assms by simp
  ultimately have b: "\<bar>t * c\<bar> \<le> 100" by simp
  then have "\<bar>t * c\<bar> \<le> 102" by simp
  from fl_small [OF this] have c: "\<bar>fl (t * c) - t * c\<bar> \<le> 12 / 1000000000000000" .
  from a b c show ?thesis by linarith
qed

lemma blend_near:
  assumes "0 \<le> t" and "t \<le> 100" and "0 \<le> a" and "a \<le> 100"
  shows "\<bar>final_confidence t a - min 100 (max 0 (t * 0.7 + a * 0.3))\<bar> \<le> 1 / 10000000000000"
proof -
  let ?x = "fl (t * fl 0.7)" and ?y = "fl (a * fl 0.3)"
  have x: "\<bar>?x - t * 0.7\<bar> \<le> 22 / 1000000000000000" "\<bar>?x\<bar> \<le> 101"
    using scaled_near [OF assms(1,2), of "fl 0.7" "0.7"] fl_seven_tenths by simp_all
  have y: "\<bar>?y - a * 0.3\<bar> \<le> 22 / 1000000000000000"
    using scaled_near [OF assms(3,4), of "fl 0.3" "0.3"] fl_three_tenths by simp_all
  have "a * 0.3 \<le> 30" "0 \<le> a * 0.3" "t * 0.7 \<le> 70" "0 \<le> t * 0.7" using assms by simp_all
  with x(1) y have "\<bar>?x + ?y\<bar> \<le> 102" by linarith
  from fl_small [OF this] have s: "\<bar>fl (?x + ?y) - (?x + ?y)\<bar> \<le> 12 / 1000000000000000" .
  have "\<bar>fl (?x + ?y) - (t * 0.7 + a * 0.3)\<bar> \<le> 56 / 1000000000000000"
    using x(1) y s by linarith
  also have "(56 :: real) / 1000000000000000 \<le> 1 / 10000000000000" by simp
  finally have "\<bar>fl (?x + ?y) - (t * 0.7 + a * 0.3)\<bar> \<le> 1 / 10000000000000" .
  with clamp_near [of "fl (?x + ?y)" "t * 0.7 + a * 0.3"]
  show ?thesis unfolding final_confidence_def by linarith
qed

lemma final_confidence_bounds: "0 \<le> final_confidence t a \<and> final_confidence t a \<le> 100"
  by (simp add: final_confidence_def)

lemma build_signal_confidence:
  assumes "get_ai_confidence ai = Some ac"
  shows "\<exists>sg. build_signal b now p st tech ai = Some sg
           \<and> confidence sg = final_confidence (tech_confidence tech) ac
           \<and> direction sg = choose_direction ai tech
           \<and> ai_analysis sg = ai \<and> pair sg = p \<and> is_forced sg = False"
  using assms by (simp add: build_signal_def Let_def case_prod_beta)

lemma analyze_single_pair_build:
  assumes "in_trading_hours (env p)" and "5 \<le> data_rows (env p)"
      and "tech_result (env p) = Some tech" and "30 \<le> tech_confidence tech"
  shows "analyze_single_pair b env now p st
         = build_signal b now p st tech (run_ai b st (reply (env p)))"
  using assms by (simp add: analyze_single_pair_def)

text \<open>
  Claim C4. Take the part of the analysis of a pair that follows the AI analysis, with
  any AI dictionary. Let the AI confidence be 50 when the dictionary is empty or has no
  \<open>confidence\<close> entry, and the number found under \<open>confidence\<close> otherwise. When the
  technical confidence and the AI confidence are both within 0 and 100, a signal is
  built and its confidence is \<open>technical * 0.7 + ai * 0.3\<close> in float arithmetic,
  clamped to the range 0 to 100: it lies within 0 and 100, and it differs from the exact
  value of \<open>technical * 0.7 + ai * 0.3\<close> by no more than \<open>1 / 10 ^ 13\<close>. The analysis
  of a pair that passes the checks before the AI step returns that signal for the AI
  dictionary it obtained.
\<close>

theorem blended_confidence:
  assumes "0 \<le> tech_confidence tech" and "tech_confidence tech \<le> 100"
      and "ai = None \<and> ac = 50
           \<or> (\<exists>d. ai = Some d
                  \<and> (ai_confidence d = None \<and> ac = 50 \<or> ai_confidence d = Some (JNumber ac)))"
      and "0 \<le> ac" and "ac \<le> 100"
  shows "(\<exists>sg. build_signal b now p st tech ai = Some sg
            \<and> confidence sg
                = min 100 (max 0 (fl (fl (tech_confidence tech * fl 0.7) + fl (ac * fl 0.3))))
            \<and> \<bar>confidence sg - min 100 (max 0 (tech_confidence tech * 0.7 + ac * 0.3))\<bar>
                \<le> 1 / 10000000000000
            \<and> min 100 (max 0 (tech_confidence tech * 0.7 + ac * 0.3))
                = tech_confidence tech * 0.7 + ac * 0.3
            \<and> 0 \<le> confidence sg \<and> confidence sg \<le> 100)
       \<and> (in_trading_hours (env p) \<and> 5 \<le> data_rows (env p)
            \<and> tech_result (env p) = Some tech \<and> 30 \<le> tech_confidence tech
            \<and> run_ai b st (reply (env p)) = ai \<longrightarrow>
          analyze_single_pair b env now p st = build_signal b now p st tech ai)"
proof -
  from assms(3) have g: "get_ai_confidence ai = Some ac"
    by (auto simp: get_ai_confidence_def)
  from build_signal_confidence [OF g, of b now p st tech]
  obtain sg where sg: "build_signal b now p st tech ai = Some sg"
    and c: "confidence sg = final_confidence (tech_confidence tech) ac"
    by blast
  have e: "confidence sg
      = min 100 (max 0 (fl (fl (tech_confidence tech * fl 0.7) + fl (ac * fl 0.3))))"
    using c by (simp add: final_confidence_def)
  have n: "\<bar>confidence sg - min 100 (max 0 (tech_confidence tech * 0.7 + ac * 0.3))\<bar>
      \<le> 1 / 10000000000000"
    using blend_near [OF assms(1,2,4,5)] c by simp
  have x: "min 100 (max 0 (tech_confidence tech * 0.7 + ac * 0.3))
      = tech_confidence tech * 0.7 + ac * 0.3"
    using assms(1,2,4,5) by simp
  have r: "0 \<le> confidence sg \<and> confidence sg \<le> 100"
    using c final_confidence_bounds [of "tech_confidence tech" ac] by simp
  have a: "in_trading_hours (env p) \<and> 5 \<le> data_rows (env p)
            \<and> tech_result (env p) = Some tech \<and> 30 \<le> tech_confidence tech
            \<and> run_ai b st (reply (env p)) = ai \<longrightarrow>
          analyze_single_pair b env now p st = build_signal b now p st tech ai"
    using analyze_single_pair_build [of env p tech b now st] by blast
  from sg e n x r a show ?thesis by blast
qed

lemmas sample_defs =
  analyze_single_pair_def build_signal_def init_bot_def sample_pair_env_def sample_tech_def
  run_ai_def get_ai_confidence_def choose_direction_def final_confidence_def
  default_settings_def analyze_pair_def neutral_dict_def sample_signal_def
  asyncio_bound_def json_bound_def float_eval

lemma sample_analysis:
  "analyze_single_pair (init_bot None) (\<lambda>q. sample_pair_env 80 CallRaises) 0 ''EUR/USD'' AUTO
   = Some (sample_signal None)"
  by (simp add: sample_defs)

lemma sample_analysis_ai_error:
  "analyze_single_pair (init_bot (Some True)) (\<lambda>q. sample_pair_env 80 CallRaises) 0
     ''EUR/USD'' AUTO
   = Some (sample_signal (Some (neutral_dict ''error'' ''detailed'')))"
  by (simp add: sample_defs)

lemma sample_blends:
  "min 100 (max 0 (fl (fl (80 * fl 0.7) + fl (90 * fl 0.3)))) = 83
   \<and> min 100 (max 0 (fl (fl (80 * fl 0.7) + fl (50 * fl 0.3)))) = 71"
  by (simp add: float_eval)

theorem blended_confidence_witness:
  "0 \<le> tech_confidence (sample_tech 80) \<and> tech_confidence (sample_tech 80) \<le> 100
   \<and> ai_confidence (sample_ai_dict 90) = Some (JNumber 90) \<and> (0 :: real) \<le> 90
   \<and> (90 :: real) \<le> 100
   \<and> (\<exists>sg. build_signal (init_bot None) 0 ''EUR/USD'' AUTO (sample_tech 80)
               (Some (sample_ai_dict 90)) = Some sg
            \<and> confidence sg = 83)
   \<and> in_trading_hours (sample_pair_env 80 CallRaises)
   \<and> 5 \<le> data_rows (sample_pair_env 80 CallRaises)
   \<and> tech_result (sample_pair_env 80 CallRaises) = Some (sample_tech 80)
   \<and> 30 \<le> tech_confidence (sample_tech 80)
   \<and> run_ai (init_bot None) AUTO (reply (sample_pair_env 80 CallRaises)) = None
   \<and> (\<exists>sg. analyze_single_pair (init_bot None) (\<lambda>q. sample_pair_env 80 CallRaises) 0
               ''EUR/USD'' AUTO = Some sg
            \<and> build_signal (init_bot None) 0 ''EUR/USD'' AUTO (sample_tech 80) None = Some sg
            \<and> confidence sg = 71)"
proof -
  have h1: "0 \<le> tech_confidence (sample_tech 80)" "tech_confidence (sample_tech 80) \<le> 100"
    by (simp_all add: sample_tech_def)
  have h2: "Some (sample_ai_dict 90) = None \<and> (90 :: real) = 50
      \<or> (\<exists>d. Some (sample_ai_dict 90) = Some d
             \<and> (ai_confidence d = None \<and> (90 :: real) = 50
                 \<or> ai_confidence d = Some (JNumber 90)))"
    by (simp add: sample_ai_dict_def)
  have h3: "(0 :: real) \<le> 90" "(90 :: real) \<le> 100" by simp_all
  have k2: "(None :: ai_dict option) = None \<and> (50 :: real) = 50
      \<or> (\<exists>d. None = Some d
             \<and> (ai_confidence d = None \<and> (50 :: real) = 50
                 \<or> ai_confidence d = Some (JNumber 50)))"
    by simp
  have k3: "(0 :: real) \<le> 50" "(50 :: real) \<le> 100" by simp_all
  have e: "in_trading_hours ((\<lambda>q. sample_pair_env 80 CallRaises) ''EUR/USD'')
      \<and> 5 \<le> data_rows ((\<lambda>q. sample_pair_env 80 CallRaises) ''EUR/USD'')
      \<and> tech_result ((\<lambda>q. sample_pair_env 80 CallRaises) ''EUR/USD'') = Some (sample_tech 80)
      \<and> 30 \<le> tech_confidence (sample_tech 80)
      \<and> run_ai (init_bot None) AUTO (reply ((\<lambda>q. sample_pair_env 80 CallRaises) ''EUR/USD''))
          = None"
    by (simp add: sample_pair_env_def sample_tech_def run_ai_def init_bot_def)
  have t: "tech_confidence (sample_tech 80) = 80" by (simp add: sample_tech_def)
  from blended_confidence [OF h1 h2 h3, of "init_bot None" 0 "''EUR/USD''" AUTO
      "\<lambda>q. sample_pair_env 80 CallRaises"]
  have a: "\<exists>sg. build_signal (init_bot None) 0 ''EUR/USD'' AUTO (sample_tech 80)
               (Some (sample_ai_dict 90)) = Some sg
            \<and> confidence sg = 83"
    unfolding t using sample_blends by auto
  from blended_confidence [OF h1 k2 k3, of "init_bot None" 0 "''EUR/USD''" AUTO
      "\<lambda>q. sample_pair_env 80 CallRaises"] e
  have b: "\<exists>sg. analyze_single_pair (init_bot None) (\<lambda>q. sample_pair_env 80 CallRaises) 0
               ''EUR/USD'' AUTO = Some sg
            \<and> build_signal (init_bot None) 0 ''EUR/USD'' AUTO (sample_tech 80) None = Some sg
            \<and> confidence sg = 71"
    unfolding t using sample_blends by auto
  from a b e h1 h3 show ?thesis by (simp add: sample_ai_dict_def)
qed

lemma analyze_pair_neutral:
  "analyze_pair c t r = neutral_dict (if c then ''error'' else ''No API Key'') t"
  by (simp add: analyze_pair_def Let_def asyncio_bound_def)

lemma run_ai_neutral:
  "run_ai b st r =
     map_option (\<lambda>c. neutral_dict (if c then ''error'' else ''No API Key'')
                       (if st = MANUAL_FAST then ''fast'' else ''detailed''))
       (ai_analyzer b)"
  by (cases "ai_analyzer b") (simp_all add: run_ai_def analyze_pair_neutral)

text \<open>
  Claim C9. For a pair in its trading hours with enough data and a technical result of
  confidence 30 or more, and for every bot and every AI reply: the analysis returns a
  signal; its confidence is the technical confidence blended with 50, its direction is
  the technical direction, and the AI result it carries is empty (a bot without
  analyzer) or the neutral one (NEUTRAL, 50). Without a client (no API key) the AI
  scorer returns the neutral dictionary at once. With a client, whatever the request
  would do (raise, reply without a JSON object, reply with JSON that does not parse, or
  reply with a JSON object, of a numeric confidence or not), the scorer names
  \<open>asyncio\<close> before it sends the request, the name is not bound in its module, and
  the handler returns the neutral dictionary.
\<close>

theorem ai_failure_is_neutral:
  assumes "in_trading_hours (env p)" and "5 \<le> data_rows (env p)"
      and "tech_result (env p) = Some tech" and "30 \<le> tech_confidence tech"
  shows "(\<exists>sg. analyze_single_pair b env now p st = Some sg
           \<and> confidence sg
               = min 100 (max 0 (fl (fl (tech_confidence tech * fl 0.7) + fl (50 * fl 0.3))))
           \<and> direction sg = tech_direction tech
           \<and> (ai_analyzer b = None \<and> ai_analysis sg = None
                \<or> (\<exists>c d. ai_analyzer b = Some c \<and> ai_analysis sg = Some d
                        \<and> d = analyze_pair c (if st = MANUAL_FAST then ''fast'' else ''detailed'')
                                (reply (env p))
                        \<and> ai_signal d = Some ''NEUTRAL''
                        \<and> ai_confidence d = Some (JNumber 50))))
       \<and> analyze_pair False t r = neutral_dict ''No API Key'' t
       \<and> analyze_pair True t r = neutral_dict ''error'' t
       \<and> ai_signal (neutral_dict m t) = Some ''NEUTRAL''
       \<and> ai_confidence (neutral_dict m t) = Some (JNumber 50)"
proof -
  let ?ai = "run_ai b st (reply (env p))"
  have conf: "get_ai_confidence ?ai = Some 50"
    by (cases "ai_analyzer b")
      (simp_all add: run_ai_neutral get_ai_confidence_def neutral_dict_def)
  have dir: "choose_direction ?ai tech = tech_direction tech"
    by (cases "ai_analyzer b")
      (simp_all add: run_ai_neutral choose_direction_def neutral_dict_def)
  have shape: "ai_analyzer b = None \<and> ?ai = None
      \<or> (\<exists>c d. ai_analyzer b = Some c \<and> ?ai = Some d
              \<and> d = analyze_pair c (if st = MANUAL_FAST then ''fast'' else ''detailed'')
                      (reply (env p))
              \<and> ai_signal d = Some ''NEUTRAL'' \<and> ai_confidence d = Some (JNumber 50))"
    by (cases "ai_analyzer b")
      (simp_all add: run_ai_def analyze_pair_neutral neutral_dict_def)
  from build_signal_confidence [OF conf, of b now p st tech]
  obtain sg where sg: "build_signal b now p st tech ?ai = Some sg"
    and c: "confidence sg = final_confidence (tech_confidence tech) 50"
    and d: "direction sg = choose_direction ?ai tech"
    and a: "ai_analysis sg = ?ai"
    by blast
  have s: "analyze_single_pair b env now p st = Some sg"
    using analyze_single_pair_build [where env = env and p = p, OF assms] sg by simp
  have c': "confidence sg
      = min 100 (max 0 (fl (fl (tech_confidence tech * fl 0.7) + fl (50 * fl 0.3))))"
    using c by (simp add: final_confidence_def)
  have first: "\<exists>sg. analyze_single_pair b env now p st = Some sg
           \<and> confidence sg
               = min 100 (max 0 (fl (fl (tech_confidence tech * fl 0.7) + fl (50 * fl 0.3))))
           \<and> direction sg = tech_direction tech
           \<and> (ai_analyzer b = None \<and> ai_analysis sg = None
                \<or> (\<exists>c d. ai_analyzer b = Some c \<and> ai_analysis sg = Some d
                        \<and> d = analyze_pair c (if st = MANUAL_FAST then ''fast'' else ''detailed'')
                                (reply (env p))
                        \<and> ai_signal d = Some ''NEUTRAL''
                        \<and> ai_confidence d = Some (JNumber 50)))"
    using s c' d dir a shape by auto
  have rest: "analyze_pair False t r = neutral_dict ''No API Key'' t
       \<and> analyze_pair True t r = neutral_dict ''error'' t
       \<and> ai_signal (neutral_dict m t) = Some ''NEUTRAL''
       \<and> ai_confidence (neutral_dict m t) = Some (JNumber 50)"
    by (simp add: analyze_pair_neutral neutral_dict_def)
  from first rest show ?thesis by blast
qed

theorem ai_failure_is_neutral_witness:
  "in_trading_hours (sample_pair_env 80 (JsonObject (Some ''SELL'') (Some JOther)))
   \<and> 5 \<le> data_rows (sample_pair_env 80 (JsonObject (Some ''SELL'') (Some JOther)))
   \<and> tech_result (sample_pair_env 80 (JsonObject (Some ''SELL'') (Some JOther)))
       = Some (sample_tech 80)
   \<and> 30 \<le> tech_confidence (sample_tech 80)
   \<and> (\<exists>sg. analyze_single_pair (init_bot (Some True))
               (\<lambda>q. sample_pair_env 80 (JsonObject (Some ''SELL'') (Some JOther))) 0
               ''EUR/USD'' AUTO = Some sg
            \<and> confidence sg = 71 \<and> direction sg = ''BUY''
            \<and> ai_analysis sg = Some (neutral_dict ''error'' ''detailed''))"
proof -
  let ?env = "\<lambda>q :: string. sample_pair_env 80 (JsonObject (Some ''SELL'') (Some JOther))"
  have h1: "in_trading_hours (?env ''EUR/USD'')"
    and h2: "5 \<le> data_rows (?env ''EUR/USD'')"
    and h3: "tech_result (?env ''EUR/USD'') = Some (sample_tech 80)"
    and h4: "30 \<le> tech_confidence (sample_tech 80)"
    by (simp_all add: sample_pair_env_def sample_tech_def)
  have t: "tech_confidence (sample_tech 80) = 80" "tech_direction (sample_tech 80) = ''BUY''"
    by (simp_all add: sample_tech_def)
  have i: "ai_analyzer (init_bot (Some True)) = Some True" by (simp add: init_bot_def)
  from ai_failure_is_neutral [where env = ?env and p = "''EUR/USD''"
      and b = "init_bot (Some True)" and now = 0 and st = AUTO and t = "''detailed''"
      and r = "JsonObject (Some ''SELL'') (Some JOther)" and m = "''error''",
      OF h1 h2 h3 h4]
  have "\<exists>sg. analyze_single_pair (init_bot (Some True)) ?env 0 ''EUR/USD'' AUTO = Some sg
            \<and> confidence sg = 71 \<and> direction sg = ''BUY''
            \<and> ai_analysis sg = Some (neutral_dict ''error'' ''detailed'')"
    unfolding t i using sample_blends by (auto simp: sample_pair_env_def)
  with h1 h2 h3 h4 show ?thesis by simp
qed

section \<open>Batches of the scan\<close>

lemma concat_spec_batches: "concat (spec_batches xs) = xs"
proof (induction xs rule: spec_batches.induct)
  case (1 xs)
  then show ?case by (subst spec_batches.simps) simp
qed

lemma spec_batches_sizes: "bt \<in> set (spec_batches xs) \<Longrightarrow> bt \<noteq> [] \<and> length bt \<le> 3"
proof (induction xs rule: spec_batches.induct)
  case (1 xs)
  show ?case
  proof (cases "xs = []")
    case True
    with "1.prems" show ?thesis by (simp add: spec_batches.simps)
  next
    case False
    with "1.prems" have "bt = take 3 xs \<or> bt \<in> set (spec_batches (drop 3 xs))"
      by (subst (asm) spec_batches.simps) simp
    then show ?thesis using False "1.IH" by auto
  qed
qed

lemma spec_batches_nth:
  "k < length (spec_batches xs) \<Longrightarrow> spec_batches xs ! k = take 3 (drop (3 * k) xs)"
proof (induction xs arbitrary: k rule: spec_batches.induct)
  case (1 xs)
  show ?case
  proof (cases "xs = []")
    case True
    with "1.prems" show ?thesis by (simp add: spec_batches.simps)
  next
    case False
    have sb: "spec_batches xs = take 3 xs # spec_batches (drop 3 xs)"
      using False by (subst spec_batches.simps) simp
    show ?thesis
    proof (cases k)
      case 0
      then show ?thesis by (simp add: sb)
    next
      case (Suc k')
      with "1.prems" sb have "k' < length (spec_batches (drop 3 xs))" by simp
      from "1.IH" [OF False this] Suc show ?thesis
        by (simp add: sb add.commute)
    qed
  qed
qed

lemma length_spec_batches: "length (spec_batches xs) = (length xs + 2) div 3"
proof (induction xs rule: spec_batches.induct)
  case (1 xs)
  show ?case
  proof (cases "xs = []")
    case True
    then show ?thesis by (simp add: spec_batches.simps)
  next
    case False
    then have "length xs > 0" by simp
    have "length (spec_batches xs) = Suc ((length xs - 3 + 2) div 3)"
      using False "1.IH" by (subst spec_batches.simps) simp
    also have "\<dots> = (length xs + 2) div 3"
      using \<open>length xs > 0\<close> by presburger
    finally show ?thesis .
  qed
qed

lemma scan_active_pairs_trace:
  "snd (scan_active_pairs b se st) =
     concat (map (\<lambda>bt. [Gather bt, Sleep 1]) (spec_batches (pairs_to_scan se)))"
proof (cases "pairs_to_scan se = []")
  case True
  then show ?thesis by (simp add: scan_active_pairs_def spec_batches.simps)
next
  case False
  then show ?thesis
    using scan_loop_trace [of "\<lambda>p. analyze_single_pair b (pair_envs se) (clock se) p st"
        "completions se" min_confidence "pairs_to_scan se" 0 "[]" "[]"]
    by (simp add: scan_active_pairs_def Let_def case_prod_beta)
qed

text \<open>
  Claim C7. The scan handles the pairs in consecutive batches of three, in the order of
  the list: its trace is, batch after batch, the batch gathered and then a sleep of one
  second (the loop also sleeps after the last batch). The batches concatenate to the
  list, batch \<open>k\<close> is the slice of three pairs starting at index \<open>3 * k\<close>, none is
  empty, and every batch but the last has three pairs. A list of four pairs is handled
  as the batch of its first three, a sleep, the batch of the fourth, a sleep.
\<close>

theorem scan_in_batches_of_three:
  "snd (scan_active_pairs b se st) =
     concat (map (\<lambda>bt. [Gather bt, Sleep 1]) (spec_batches (pairs_to_scan se)))
   \<and> concat (spec_batches (pairs_to_scan se)) = pairs_to_scan se
   \<and> length (spec_batches (pairs_to_scan se)) = (length (pairs_to_scan se) + 2) div 3
   \<and> (\<forall>k < length (spec_batches (pairs_to_scan se)).
        spec_batches (pairs_to_scan se) ! k = take 3 (drop (3 * k) (pairs_to_scan se))
        \<and> spec_batches (pairs_to_scan se) ! k \<noteq> []
        \<and> (Suc k < length (spec_batches (pairs_to_scan se)) \<longrightarrow>
             length (spec_batches (pairs_to_scan se) ! k) = 3))
   \<and> (pairs_to_scan se = [p1, p2, p3, p4] \<longrightarrow>
        snd (scan_active_pairs b se st)
          = [Gather [p1, p2, p3], Sleep 1, Gather [p4], Sleep 1])"
proof -
  let ?ps = "pairs_to_scan se"
  have nth: "\<forall>k < length (spec_batches ?ps).
        spec_batches ?ps ! k = take 3 (drop (3 * k) ?ps)
        \<and> spec_batches ?ps ! k \<noteq> []
        \<and> (Suc k < length (spec_batches ?ps) \<longrightarrow> length (spec_batches ?ps ! k) = 3)"
  proof (intro allI impI conjI)
    fix k assume k: "k < length (spec_batches ?ps)"
    show "spec_batches ?ps ! k = take 3 (drop (3 * k) ?ps)"
      by (rule spec_batches_nth [OF k])
    show "spec_batches ?ps ! k \<noteq> []"
      using spec_batches_sizes [of "spec_batches ?ps ! k" ?ps] k by simp
    assume "Suc k < length (spec_batches ?ps)"
    then have "Suc k < (length ?ps + 2) div 3" by (simp add: length_spec_batches)
    then have "3 * k + 3 \<le> length ?ps" by presburger
    then show "length (spec_batches ?ps ! k) = 3"
      by (simp add: spec_batches_nth [OF k])
  qed
  have four: "?ps = [p1, p2, p3, p4] \<longrightarrow>
        snd (scan_active_pairs b se st) = [Gather [p1, p2, p3], Sleep 1, Gather [p4], Sleep 1]"
    by (simp add: scan_active_pairs_trace spec_batches.simps)
  show ?thesis
    using scan_active_pairs_trace concat_spec_batches length_spec_batches nth four
    by blast
qed

theorem scan_in_batches_of_three_witness:
  "spec_batches [''A'', ''B'', ''C'', ''D''] = [[''A'', ''B'', ''C''], [''D'']]
   \<and> snd (scan_active_pairs (init_bot None)
        (sample_scan_env [(''A'', 80), (''B'', 80), (''C'', 80), (''D'', 80)] [0, 1, 2]) AUTO)
      = [Gather [''A'', ''B'', ''C''], Sleep 1, Gather [''D''], Sleep 1]"
  using scan_in_batches_of_three [of "init_bot None"
      "sample_scan_env [(''A'', 80), (''B'', 80), (''C'', 80), (''D'', 80)] [0, 1, 2]" AUTO
      "''A''" "''B''" "''C''" "''D''"]
  by (simp add: sample_scan_env_def spec_batches.simps)

section \<open>The outcome of a scan without a signal\<close>

lemmas scan_eval =
  scan_active_pairs_def scan_loop.simps gather_def passes_def batch_size_def select_best_def
  sort_reverse_def sample_scan_env_def sample_envs_def every_batch_def min_confidence_def
  sample_defs

lemma select_best_None: "select_best f xs = None \<longleftrightarrow> xs = []"
  by (simp add: select_best_def)

lemma scan_active_pairs_None_iff:
  "fst (scan_active_pairs b se st) = None \<longleftrightarrow>
     pairs_to_scan se = []
     \<or> fst (scan_loop (\<lambda>p. analyze_single_pair b (pair_envs se) (clock se) p st)
           (completions se) min_confidence (pairs_to_scan se) 0 [] []) = []"
  by (simp add: scan_active_pairs_def Let_def case_prod_beta select_best_None)

lemma scan_no_candidate:
  assumes "\<forall>p\<in>set (pairs_to_scan se). \<forall>s.
             analyze_single_pair b (pair_envs se) (clock se) p st = Some s
               \<longrightarrow> confidence s < min_confidence"
  shows "fst (scan_active_pairs b se st) = None"
proof -
  have "set (fst (scan_loop (\<lambda>p. analyze_single_pair b (pair_envs se) (clock se) p st)
           (completions se) min_confidence (pairs_to_scan se) 0 [] [])) \<subseteq> {}"
    using scan_loop_signals_subset [of "\<lambda>p. analyze_single_pair b (pair_envs se) (clock se) p st"
        "completions se" min_confidence "pairs_to_scan se" 0 "[]" "[]"] assms
    by fastforce
  then show ?thesis by (simp add: scan_active_pairs_None_iff)
qed

text \<open>
  Claim C2 says that the scan returns one outcome for an empty list of active pairs and
  a different one for a list in which no pair reaches the threshold. It does not: with
  no active pair, and with the one active pair EUR/USD whose confidence is 50, the scan
  of a bot with default settings returns \<open>None\<close> both times.
\<close>

theorem scan_no_signal_collapsed:
  "fst (scan_active_pairs (init_bot None) (sample_scan_env [] [0, 1, 2]) AUTO) = None
   \<and> fst (scan_active_pairs (init_bot None) (sample_scan_env [(''EUR/USD'', 50)] [0, 1, 2]) AUTO)
       = None"
  by (simp add: scan_eval)

text \<open>
  Claim C2, amended. The scan returns \<open>None\<close> for an empty list of active pairs, and
  \<open>None\<close> again for a list in which no analysis reaches the threshold. The cause is
  told apart by the command that calls the scan, which reads the list of active pairs
  itself first: on a primary instance with no live signal, \<open>/auto\<close> and \<open>/manual\<close>
  answer an empty list with the no-active-pairs message and do not scan, and
  \<open>/auto\<close> answers a scan over a non-empty list that returned \<open>None\<close> with the
  no-strong-signals message.
\<close>

theorem no_signal_causes:
  "(pairs_to_scan se = [] \<longrightarrow> fst (scan_active_pairs b se st) = None)
   \<and> ((\<forall>p\<in>set (pairs_to_scan se). \<forall>s.
          analyze_single_pair b (pair_envs se) (clock se) p st = Some s
            \<longrightarrow> confidence s < min_confidence)
        \<longrightarrow> fst (scan_active_pairs b se st) = None)
   \<and> (is_primary_instance b \<and> current_signal b = None \<and> active_pairs ce = []
        \<longrightarrow> cmd_auto b ce = (b, [NoActiveTradingPairs])
          \<and> cmd_manual b ce = (b, [NoActiveTradingPairs]))
   \<and> (is_primary_instance b \<and> current_signal b = None \<and> active_pairs ce \<noteq> []
        \<and> fst (scan_active_pairs b (scan_of ce) AUTO) = None
        \<longrightarrow> cmd_auto b ce = (b, [Scanning (length (active_pairs ce)), NoStrongSignals]))"
proof -
  have a: "pairs_to_scan se = [] \<longrightarrow> fst (scan_active_pairs b se st) = None"
    by (simp add: scan_active_pairs_def)
  have b: "(\<forall>p\<in>set (pairs_to_scan se). \<forall>s.
          analyze_single_pair b (pair_envs se) (clock se) p st = Some s
            \<longrightarrow> confidence s < min_confidence)
        \<longrightarrow> fst (scan_active_pairs b se st) = None"
    using scan_no_candidate [of se b st] by blast
  have c: "is_primary_instance b \<and> current_signal b = None \<and> active_pairs ce = []
        \<longrightarrow> cmd_auto b ce = (b, [NoActiveTradingPairs])
          \<and> cmd_manual b ce = (b, [NoActiveTradingPairs])"
    by (simp add: cmd_auto_def cmd_manual_def cmd_auto_check_def cmd_manual_check_def)
  have d: "is_primary_instance b \<and> current_signal b = None \<and> active_pairs ce \<noteq> []
        \<and> fst (scan_active_pairs b (scan_of ce) AUTO) = None
        \<longrightarrow> cmd_auto b ce = (b, [Scanning (length (active_pairs ce)), NoStrongSignals])"
    by (simp add: cmd_auto_def cmd_auto_check_def cmd_auto_store_def)
  from a b c d show ?thesis by blast
qed

lemmas cmd_eval =
  cmd_auto_def cmd_auto_check_def cmd_auto_store_def cmd_manual_def cmd_manual_check_def
  cmd_manual_store_def primary_bot_def sample_cmd_env_def

theorem no_signal_causes_witness:
  "pairs_to_scan (sample_scan_env [] [0, 1, 2]) = []
   \<and> fst (scan_active_pairs primary_bot (sample_scan_env [] [0, 1, 2]) AUTO) = None
   \<and> pairs_to_scan (sample_scan_env [(''EUR/USD'', 50)] [0, 1, 2]) = [''EUR/USD'']
   \<and> fst (scan_active_pairs primary_bot (sample_scan_env [(''EUR/USD'', 50)] [0, 1, 2]) AUTO) = None
   \<and> cmd_auto primary_bot (sample_cmd_env []) = (primary_bot, [NoActiveTradingPairs])
   \<and> cmd_auto primary_bot (sample_cmd_env [(''EUR/USD'', 50)])
       = (primary_bot, [Scanning 1, NoStrongSignals])"
proof -
  let ?se = "sample_scan_env [(''EUR/USD'', 50)] [0, 1, 2]"
  have h1: "pairs_to_scan (sample_scan_env [] [0, 1, 2]) = []"
    by (simp add: sample_scan_env_def)
  have h2: "\<forall>p\<in>set (pairs_to_scan ?se). \<forall>s.
          analyze_single_pair primary_bot (pair_envs ?se) (clock ?se) p AUTO = Some s
            \<longrightarrow> confidence s < min_confidence"
    by (simp add: sample_scan_env_def sample_envs_def primary_bot_def min_confidence_def
        sample_defs)
  have h3: "is_primary_instance primary_bot \<and> current_signal primary_bot = None
      \<and> active_pairs (sample_cmd_env []) = []"
    by (simp add: primary_bot_def init_bot_def sample_cmd_env_def)
  have h4: "fst (scan_active_pairs primary_bot ?se AUTO) = None"
    using no_signal_causes [of ?se primary_bot AUTO] h2 by blast
  have h5: "is_primary_instance primary_bot \<and> current_signal primary_bot = None
      \<and> active_pairs (sample_cmd_env [(''EUR/USD'', 50)]) \<noteq> []
      \<and> fst (scan_active_pairs primary_bot (scan_of (sample_cmd_env [(''EUR/USD'', 50)])) AUTO)
          = None"
    using h4 by (simp add: primary_bot_def init_bot_def sample_cmd_env_def)
  have a: "fst (scan_active_pairs primary_bot (sample_scan_env [] [0, 1, 2]) AUTO) = None"
    using no_signal_causes [of "sample_scan_env [] [0, 1, 2]" primary_bot AUTO] h1 by blast
  have c: "cmd_auto primary_bot (sample_cmd_env []) = (primary_bot, [NoActiveTradingPairs])"
    using no_signal_causes [of _ primary_bot _ "sample_cmd_env []"] h3 by blast
  have d: "cmd_auto primary_bot (sample_cmd_env [(''EUR/USD'', 50)])
       = (primary_bot, [Scanning (length (active_pairs (sample_cmd_env [(''EUR/USD'', 50)]))),
            NoStrongSignals])"
    using no_signal_causes [of _ primary_bot _ "sample_cmd_env [(''EUR/USD'', 50)]"] h5 by blast
  show ?thesis
    using h1 a h4 c d by (simp add: sample_scan_env_def sample_cmd_env_def)
qed

section \<open>The selection of the best signal\<close>










section \<open>The signal slot\<close>

text \<open>
  A command or a pass of the scanner that starts on an occupied slot ends without
  touching the slot.
\<close>

lemma occupied_slot_refused:
  assumes "current_signal b = Some cur"
  shows "current_signal (fst (cmd_auto b ce)) = Some cur
       \<and> current_signal (fst (cmd_manual b ce)) = Some cur
       \<and> cmd_analyze b ae = (b, [SignalActive (pair cur)])
       \<and> cmd_fast b ae = (b, [SignalActive (pair cur)])
       \<and> current_signal (fst (auto_scanner_body b te)) = Some cur"
  using assms
  by (simp add: cmd_auto_def cmd_auto_check_def cmd_manual_def cmd_manual_check_def
      cmd_analyze_def cmd_analyze_check_def cmd_fast_def cmd_fast_check_def
      auto_scanner_body_def auto_scanner_check_def Let_def)

text \<open>
  The second part of every command and of the scanner's pass writes the slot whatever
  it holds.
\<close>

lemma store_without_test:
  "current_signal (fst (cmd_auto_store b ce (Some sg))) = Some sg
   \<and> current_signal (fst (cmd_manual_store b ce (Some sg))) = Some sg
   \<and> (min_confidence \<le> confidence sg \<longrightarrow>
        current_signal (fst (analysis_store b ae p (Some sg))) = Some sg)
   \<and> (75 \<le> confidence sg \<longrightarrow>
        current_signal (fst (auto_scanner_store b te (Some sg))) = Some sg)"
  by (simp add: cmd_auto_store_def cmd_manual_store_def analysis_store_def
      auto_scanner_store_def)

text \<open>Clearing empties the slot.\<close>

lemma clear_empties: "current_signal (fst (cmd_clear b)) = None"
  by (cases "current_signal b") (simp_all add: cmd_clear_def)

lemma sample_scan_eur:
  "map_option (\<lambda>sg. (pair sg, confidence sg))
     (fst (scan_active_pairs primary_bot (sample_scan_env first_table [0, 1, 2]) AUTO))
   = Some (''EUR/USD'', 71)"
  by (simp add: primary_bot_def first_table_def second_table_def scan_eval)

lemma sample_scan_gbp:
  "map_option (\<lambda>sg. (pair sg, confidence sg))
     (fst (scan_active_pairs primary_bot (sample_scan_env second_table [0, 1, 2]) AUTO))
   = Some (''GBP/USD'', 78)"
  by (simp add: primary_bot_def first_table_def second_table_def scan_eval)

lemma sample_analysis_eur:
  "map_option (\<lambda>sg. (pair sg, confidence sg))
     (analyze_single_pair primary_bot (sample_envs first_table) 0 ''EUR/USD''
        MANUAL_DETAILED)
   = Some (''EUR/USD'', 71)"
  by (simp add: primary_bot_def first_table_def sample_envs_def sample_defs)

text \<open>
  Claim C3. The slot \<open>current_signal\<close> is to be written only when it is empty, and a
  command that produces a signal is to leave an occupant alone. The code tests the slot
  at the start of each command and of each pass of the scanner, awaits the scan or the
  analysis, and then writes the slot without a second test. Take a running primary bot
  with an empty slot while EUR/USD and GBP/USD are active. \<open>/auto\<close> arrives, finds
  the slot empty and starts its scan, whose best signal is for EUR/USD. While it awaits,
  the scanner runs a pass, finds the slot empty, scans (its best signal is for GBP/USD,
  of confidence 78) and stores the GBP/USD signal. The scan of \<open>/auto\<close> then returns
  the EUR/USD signal, and \<open>/auto\<close> writes it over the GBP/USD signal. In the same
  way, when \<open>/analyze\<close> and a pass of the scanner have both found the slot empty
  and \<open>/analyze\<close> stores its EUR/USD signal first, the scanner writes its GBP/USD
  signal over it.
\<close>

theorem signal_slot_overwritten:
  "current_signal primary_bot = None
   \<and> cmd_auto_check primary_bot (sample_cmd_env first_table) = Inr ()
   \<and> map_option pair
        (current_signal
           (fst (auto_scanner_body primary_bot (sample_tick_env second_table 50000))))
       = Some ''GBP/USD''
   \<and> map_option pair
        (fst (scan_active_pairs primary_bot (scan_of (sample_cmd_env first_table)) AUTO))
       = Some ''EUR/USD''
   \<and> map_option pair
        (current_signal
           (fst (cmd_auto_store
                   (fst (auto_scanner_body primary_bot (sample_tick_env second_table 50000)))
                   (sample_cmd_env first_table)
                   (fst (scan_active_pairs primary_bot
                           (scan_of (sample_cmd_env first_table)) AUTO)))))
       = Some ''EUR/USD''
   \<and> cmd_analyze_check primary_bot (sample_analyze_env None first_table)
       = Inr ''EUR/USD''
   \<and> auto_scanner_check primary_bot (sample_tick_env second_table 50000)
       = Inr primary_bot
   \<and> map_option pair
        (current_signal
           (fst (analysis_store primary_bot (sample_analyze_env None first_table)
                   ''EUR/USD''
                   (analyze_single_pair primary_bot (sample_envs first_table) 0
                      ''EUR/USD'' MANUAL_DETAILED))))
       = Some ''EUR/USD''
   \<and> map_option pair
        (current_signal
           (fst (auto_scanner_store
                   (fst (analysis_store primary_bot
                           (sample_analyze_env None first_table) ''EUR/USD''
                           (analyze_single_pair primary_bot (sample_envs first_table) 0
                              ''EUR/USD'' MANUAL_DETAILED)))
                   (sample_tick_env second_table 50000)
                   (fst (scan_active_pairs primary_bot
                           (tick_scan (sample_tick_env second_table 50000)) AUTO)))))
       = Some ''GBP/USD''"
proof -
  let ?ce = "sample_cmd_env first_table"
  let ?te = "sample_tick_env second_table 50000"
  let ?ae = "sample_analyze_env None first_table"
  obtain a where a: "fst (scan_active_pairs primary_bot
      (sample_scan_env first_table [0, 1, 2]) AUTO) = Some a"
    and pa: "pair a = ''EUR/USD''" and ca: "confidence a = 71"
    using sample_scan_eur by auto
  obtain g where g: "fst (scan_active_pairs primary_bot
      (sample_scan_env second_table [0, 1, 2]) AUTO) = Some g"
    and pg: "pair g = ''GBP/USD''" and cg: "confidence g = 78"
    using sample_scan_gbp by auto
  obtain m where m: "analyze_single_pair primary_bot (sample_envs first_table) 0
      ''EUR/USD'' MANUAL_DETAILED = Some m"
    and pm: "pair m = ''EUR/USD''" and cm: "confidence m = 71"
    using sample_analysis_eur by auto
  have sa: "scan_of ?ce = sample_scan_env first_table [0, 1, 2]"
    by (simp add: sample_cmd_env_def)
  have st: "tick_scan ?te = sample_scan_env second_table [0, 1, 2]"
    by (simp add: sample_tick_env_def)
  have e: "current_signal primary_bot = None" by (simp add: primary_bot_def init_bot_def)
  have c1: "cmd_auto_check primary_bot ?ce = Inr ()"
    by (simp add: cmd_auto_check_def primary_bot_def init_bot_def sample_cmd_env_def
        first_table_def)
  have c2: "cmd_analyze_check primary_bot ?ae = Inr ''EUR/USD''"
    by (simp add: cmd_analyze_check_def hours_check_def primary_bot_def init_bot_def
        sample_analyze_env_def first_table_def)
  have c3: "auto_scanner_check primary_bot ?te = Inr primary_bot"
    by (simp add: auto_scanner_check_def scan_due_def hour_of_def minute_of_def
        primary_bot_def init_bot_def sample_tick_env_def second_table_def Let_def)
  have b1: "map_option pair (current_signal (fst (auto_scanner_body primary_bot ?te)))
      = Some ''GBP/USD''"
    unfolding auto_scanner_body_def c3 using g pg cg st
    by (simp add: case_prod_beta auto_scanner_store_def)
  have w1: "map_option pair (current_signal (fst (cmd_auto_store
      (fst (auto_scanner_body primary_bot ?te)) ?ce
      (fst (scan_active_pairs primary_bot (scan_of ?ce) AUTO))))) = Some ''EUR/USD''"
    unfolding sa a using pa by (simp add: cmd_auto_store_def sample_cmd_env_def)
  have s2: "map_option pair (current_signal (fst (analysis_store primary_bot ?ae ''EUR/USD''
      (analyze_single_pair primary_bot (sample_envs first_table) 0 ''EUR/USD''
         MANUAL_DETAILED)))) = Some ''EUR/USD''"
    unfolding m using pm cm
    by (simp add: analysis_store_def min_confidence_def sample_analyze_env_def)
  have w2: "map_option pair (current_signal (fst (auto_scanner_store
      (fst (analysis_store primary_bot ?ae ''EUR/USD''
         (analyze_single_pair primary_bot (sample_envs first_table) 0 ''EUR/USD''
            MANUAL_DETAILED))) ?te
      (fst (scan_active_pairs primary_bot (tick_scan ?te) AUTO))))) = Some ''GBP/USD''"
    unfolding st g using pg cg by (simp add: auto_scanner_store_def)
  have p1: "map_option pair (fst (scan_active_pairs primary_bot (scan_of ?ce) AUTO))
      = Some ''EUR/USD''"
    unfolding sa a using pa by simp
  from e c1 b1 p1 w1 c2 c3 s2 w2 show ?thesis by blast
qed

section \<open>One pass of the auto scanner\<close>

lemma build_ignores_signals_today:
  "build_signal (b\<lparr>signals_today := n\<rparr>) now p st tech ai = build_signal b now p st tech ai"
  by (cases "get_ai_confidence ai") (simp_all add: build_signal_def)

lemma analyze_ignores_signals_today:
  "analyze_single_pair (b\<lparr>signals_today := n\<rparr>) env now p st = analyze_single_pair b env now p st"
proof -
  have r: "run_ai (b\<lparr>signals_today := n\<rparr>) = run_ai b"
    by (simp add: run_ai_def fun_eq_iff)
  show ?thesis
    unfolding analyze_single_pair_def r build_ignores_signals_today by (rule refl)
qed

lemma scan_ignores_signals_today:
  "scan_active_pairs (b\<lparr>signals_today := n\<rparr>) se st = scan_active_pairs b se st"
  by (simp add: scan_active_pairs_def analyze_ignores_signals_today)

lemma no_scan_call_in_batches:
  "filter is_scan_call (concat (map (\<lambda>bt. [Gather bt, Sleep 1]) bs)) = []"
  by (induction bs) (simp_all add: is_scan_call_def)

lemma select_best_Some:
  assumes "select_best forced xs = Some s"
  shows "\<exists>h\<in>set xs. s = h\<lparr>is_forced := forced\<rparr>"
proof -
  from assms have ne: "xs \<noteq> []" by (auto simp: select_best_def)
  then have "sort_key (\<lambda>x. - confidence x) xs \<noteq> []"
    by (metis length_0_conv length_sort)
  then have "hd (sort_key (\<lambda>x. - confidence x) xs) \<in> set (sort_key (\<lambda>x. - confidence x) xs)"
    by (rule hd_in_set)
  then have "hd (sort_key (\<lambda>x. - confidence x) xs) \<in> set xs" by simp
  with assms ne show ?thesis by (auto simp: select_best_def sort_reverse_def)
qed

lemma scan_result_meets_threshold:
  assumes "fst (scan_active_pairs b se st) = Some sg"
  shows "min_confidence \<le> confidence sg"
proof -
  let ?an = "\<lambda>p. analyze_single_pair b (pair_envs se) (clock se) p st"
  let ?all = "fst (scan_loop ?an (completions se) min_confidence (pairs_to_scan se) 0 [] [])"
  from assms have "select_best False ?all = Some sg"
    by (auto simp: scan_active_pairs_def Let_def case_prod_beta split: if_splits)
  from select_best_Some [OF this] obtain h where h: "h \<in> set ?all" "sg = h\<lparr>is_forced := False\<rparr>"
    by blast
  from h(1) scan_loop_signals_subset [of ?an "completions se" min_confidence "pairs_to_scan se" 0 "[]" "[]"]
  have "min_confidence \<le> confidence h" by auto
  with h(2) show ?thesis by simp
qed

text \<open>
  Claim C8 says that a signal returned by the scan of a tick is stored in the registry.
  It is not always: on a primary, running bot with an empty slot, a scan that is due
  and the one active pair EUR/USD, the scan returns a signal of confidence 74.5 (above
  the auto threshold 70), and the slot is still empty after the pass.
\<close>

theorem auto_scanner_tick_gated:
  "running primary_bot \<and> is_primary_instance primary_bot \<and> current_signal primary_bot = None
   \<and> scan_due primary_bot (nigeria_time (sample_tick_env [(''EUR/USD'', 85)] 50000))
   \<and> tick_active_pairs (sample_tick_env [(''EUR/USD'', 85)] 50000) = [''EUR/USD'']
   \<and> map_option confidence
        (fst (scan_active_pairs primary_bot (tick_scan (sample_tick_env [(''EUR/USD'', 85)] 50000))
           AUTO)) = Some 74.5
   \<and> map_option (current_signal \<circ> fst)
        (auto_scanner_tick primary_bot (sample_tick_env [(''EUR/USD'', 85)] 50000)) = Some None"
  by (simp add: auto_scanner_tick_def auto_scanner_body_def auto_scanner_check_def
      auto_scanner_store_def scan_due_def sample_tick_env_def hour_of_def minute_of_def
      primary_bot_def scan_eval)

text \<open>
  Claim C8, amended. On a running primary instance, a pass of the scanner that finds the
  slot empty, the scan due (no earlier scan, or the interval elapsed) and at least one
  active pair calls the scan exactly once, in \<open>AUTO\<close> mode, whose results all reach
  the auto threshold 70. The signal it returns is stored in the slot only when its
  confidence is at least 75; a signal below 75, like no signal, leaves the slot empty.
  The time of the last scan is set to the clock reading of the pass in every case.
\<close>

theorem auto_scanner_tick_scans_once:
  assumes "running b" and "is_primary_instance b" and "current_signal b = None"
      and "scan_due b (nigeria_time te)" and "tick_active_pairs te \<noteq> []"
  shows "\<exists>b' tr. auto_scanner_tick b te = Some (b', tr)
           \<and> take (Suc (length (snd (scan_active_pairs b (tick_scan te) AUTO)))) tr
               = CallScan AUTO # snd (scan_active_pairs b (tick_scan te) AUTO)
           \<and> filter is_scan_call tr = [CallScan AUTO]
           \<and> last_auto_scan b' = Some (nigeria_time te)
           \<and> current_signal b' =
               (case fst (scan_active_pairs b (tick_scan te) AUTO) of
                  None \<Rightarrow> None
                | Some sg \<Rightarrow> if 75 \<le> confidence sg then Some sg else None)
           \<and> (\<forall>sg. fst (scan_active_pairs b (tick_scan te) AUTO) = Some sg
                 \<longrightarrow> min_confidence \<le> confidence sg)"
proof -
  let ?t = "nigeria_time te"
  let ?b = "if hour_of ?t = 0 \<and> minute_of ?t < 5 then b\<lparr>signals_today := 0\<rparr> else b"
  let ?scan = "scan_active_pairs b (tick_scan te) AUTO"
  have scan: "scan_active_pairs ?b (tick_scan te) AUTO = ?scan"
    by (simp add: scan_ignores_signals_today)
  have cur: "current_signal ?b = None" using assms(3) by simp
  have due: "scan_due ?b ?t"
    using assms(4) by (cases "last_auto_scan b") (simp_all add: scan_due_def)
  have quiet: "filter is_scan_call (snd ?scan) = []"
    by (simp add: scan_active_pairs_trace no_scan_call_in_batches)
  have thr: "\<forall>sg. fst ?scan = Some sg \<longrightarrow> min_confidence \<le> confidence sg"
    using scan_result_meets_threshold by blast
  obtain r tr0 where r: "?scan = (r, tr0)" by (cases ?scan)
  with quiet have q0: "filter is_scan_call tr0 = []" by simp
  have body: "auto_scanner_body b te =
      (case r of
         None \<Rightarrow> (?b\<lparr>last_auto_scan := Some ?t\<rparr>, CallScan AUTO # tr0 @ [Sleep 60])
       | Some sg \<Rightarrow>
           if 75 \<le> confidence sg then
             (?b\<lparr>current_signal := Some sg, auto_signals := auto_signals ?b + 1,
                  total_signals := total_signals ?b + 1,
                  signals_today := signals_today ?b + 1,
                  last_auto_scan := Some ?t\<rparr>,
              CallScan AUTO # tr0 @ [SendAdmin (pair sg), Sleep 60])
           else (?b\<lparr>last_auto_scan := Some ?t\<rparr>, CallScan AUTO # tr0 @ [Sleep 60]))"
    unfolding auto_scanner_body_def auto_scanner_check_def auto_scanner_store_def Let_def
    using cur due assms(5) scan r by (simp split: option.splits)
  show ?thesis
  proof (cases r)
    case None
    with body r q0 assms(1,2,3) thr show ?thesis
      by (simp add: auto_scanner_tick_def is_scan_call_def)
  next
    case (Some sg)
    with body r q0 assms(1,2,3) thr show ?thesis
      by (simp add: auto_scanner_tick_def is_scan_call_def)
  qed
qed

theorem auto_scanner_tick_scans_once_witness:
  "map_option (map_option pair \<circ> current_signal \<circ> fst)
       (auto_scanner_tick primary_bot (sample_tick_env [(''EUR/USD'', 90)] 50000))
     = Some (Some ''EUR/USD'')
   \<and> map_option (last_auto_scan \<circ> fst)
       (auto_scanner_tick primary_bot (sample_tick_env [(''EUR/USD'', 90)] 50000))
     = Some (Some 50000)
   \<and> map_option (filter is_scan_call \<circ> snd)
       (auto_scanner_tick primary_bot (sample_tick_env [(''EUR/USD'', 90)] 50000))
     = Some [CallScan AUTO]
   \<and> map_option (current_signal \<circ> fst)
       (auto_scanner_tick primary_bot (sample_tick_env [(''EUR/USD'', 85)] 50000))
     = Some None
   \<and> map_option (last_auto_scan \<circ> fst)
       (auto_scanner_tick primary_bot (sample_tick_env [(''EUR/USD'', 85)] 50000))
     = Some (Some 50000)"
proof -
  let ?hi = "sample_tick_env [(''EUR/USD'', 90)] 50000"
  let ?lo = "sample_tick_env [(''EUR/USD'', 85)] 50000"
  have h1: "running primary_bot" and h2: "is_primary_instance primary_bot"
    and h3: "current_signal primary_bot = None"
    by (simp_all add: primary_bot_def init_bot_def)
  have h4: "scan_due primary_bot (nigeria_time ?hi)" "scan_due primary_bot (nigeria_time ?lo)"
    by (simp_all add: scan_due_def primary_bot_def init_bot_def)
  have h5: "tick_active_pairs ?hi \<noteq> []" "tick_active_pairs ?lo \<noteq> []"
    by (simp_all add: sample_tick_env_def)
  have shi: "map_option (\<lambda>sg. (pair sg, confidence sg))
               (fst (scan_active_pairs primary_bot (tick_scan ?hi) AUTO))
             = Some (''EUR/USD'', 78)"
    by (simp add: sample_tick_env_def primary_bot_def scan_eval)
  have slo: "map_option confidence (fst (scan_active_pairs primary_bot (tick_scan ?lo) AUTO))
             = Some 74.5"
    by (simp add: sample_tick_env_def primary_bot_def scan_eval)
  from auto_scanner_tick_scans_once [OF h1 h2 h3 h4(1) h5(1)] shi
  have a: "map_option (map_option pair \<circ> current_signal \<circ> fst) (auto_scanner_tick primary_bot ?hi)
             = Some (Some ''EUR/USD'')
         \<and> map_option (last_auto_scan \<circ> fst) (auto_scanner_tick primary_bot ?hi)
             = Some (Some 50000)
         \<and> map_option (filter is_scan_call \<circ> snd) (auto_scanner_tick primary_bot ?hi)
             = Some [CallScan AUTO]"
    by (auto simp: sample_tick_env_def split: option.splits)
  from auto_scanner_tick_scans_once [OF h1 h2 h3 h4(2) h5(2)] slo
  have b: "map_option (current_signal \<circ> fst) (auto_scanner_tick primary_bot ?lo) = Some None
         \<and> map_option (last_auto_scan \<circ> fst) (auto_scanner_tick primary_bot ?lo)
             = Some (Some 50000)"
    by (auto simp: sample_tick_env_def split: option.splits)
  from a b show ?thesis by simp
qed

section \<open>Acquiring the lock\<close>

text \<open>
  With portalocker, a caller that finds the advisory lock held by another process has
  already emptied the file by opening it with mode \<open>'w'\<close>; reading it back raises,
  and the call returns false whatever the age of the record was.
\<close>

lemma acquire_lock_contended:
  assumes "\<not> lock_held m" and "flock_holder s = Some other"
  shows "acquire_lock True m s now timeout
           = (False, m\<lparr>lock_file := False\<rparr>, s\<lparr>content := Unreadable\<rparr>)"
  using assms by (simp add: acquire_lock_def Let_def)

text \<open>
  Claim C1 says that a caller that is not the holder is refused while the record on the
  storage is unexpired, and that the record is then left alone. It is not so. The lock
  file holds the record of another instance, written at instant 0, expiring at 300; at
  instant 100 the record is unexpired. Without portalocker, a call with the timeout 60
  finds the record older than 60 seconds, overwrites it and returns true. With
  portalocker, while no process holds the advisory lock, a call with the timeout 300
  takes the lock, overwrites the record and returns true.
\<close>

theorem acquire_lock_ignores_expiry:
  "instance_id other_record \<noteq> self_instance_id (sample_manager ''a1a1a1a1a1a1'')
   \<and> content held_storage = LockRecord other_record
   \<and> (100::real) < expires other_record
   \<and> acquire_lock False (sample_manager ''a1a1a1a1a1a1'') held_storage 100 60
       = (True,
          (sample_manager ''a1a1a1a1a1a1'')\<lparr>lock_held := True, lock_timeout := 60\<rparr>,
          held_storage\<lparr>content :=
            LockRecord (own_lock_data (sample_manager ''a1a1a1a1a1a1'') 100 60)\<rparr>)
   \<and> fst (acquire_lock True (sample_manager ''a1a1a1a1a1a1'') held_storage 100 300) = True
   \<and> content (snd (snd (acquire_lock True (sample_manager ''a1a1a1a1a1a1'') held_storage 100 300)))
       = LockRecord (own_lock_data (sample_manager ''a1a1a1a1a1a1'') 100 300)"
  by (simp add: acquire_lock_def acquire_lock_fallback_def Let_def held_storage_def
      other_record_def sample_manager_def)

text \<open>
  Claim C1, amended. \<open>acquire_lock\<close> never reads the \<open>expires\<close> entry of the
  record. Without portalocker, a call that finds a readable record compares the age of
  the record with its own timeout: when \<open>now - timestamp\<close> exceeds the timeout it
  overwrites the record with the caller as holder and returns true; otherwise it
  returns false and leaves the manager and the file as they were. With portalocker, a
  caller that does not hold the lock, and finds the advisory lock on the file free,
  writes its own record and returns true, whatever the old record says. The record
  written names the caller, is stamped \<open>now\<close> and expires at \<open>now + timeout\<close>.
\<close>

theorem acquire_lock_decides_by_age:
  "(content s = LockRecord d \<and> timeout < now - timestamp d \<longrightarrow>
      acquire_lock False m s now timeout
        = (True, m\<lparr>lock_held := True, lock_timeout := timeout\<rparr>,
           s\<lparr>content := LockRecord (own_lock_data m now timeout)\<rparr>))
   \<and> (content s = LockRecord d \<and> now - timestamp d \<le> timeout \<longrightarrow>
      acquire_lock False m s now timeout = (False, m, s))
   \<and> (\<not> lock_held m \<and> flock_holder s = None \<longrightarrow>
      acquire_lock True m s now timeout
        = (True, m\<lparr>lock_held := True, lock_timeout := timeout, lock_file := True\<rparr>,
           s\<lparr>content := LockRecord (own_lock_data m now timeout),
             flock_holder := Some (self_instance_id m)\<rparr>))
   \<and> instance_id (own_lock_data m now timeout) = self_instance_id m
   \<and> timestamp (own_lock_data m now timeout) = now
   \<and> expires (own_lock_data m now timeout) = now + timeout"
  by (simp add: acquire_lock_def acquire_lock_fallback_def Let_def own_lock_data_def)

theorem acquire_lock_decides_by_age_witness:
  "content held_storage = LockRecord other_record
   \<and> (300::real) < 301 - timestamp other_record
   \<and> acquire_lock False (sample_manager ''a1a1a1a1a1a1'') held_storage 301 300
       = (True, (sample_manager ''a1a1a1a1a1a1'')\<lparr>lock_held := True, lock_timeout := 300\<rparr>,
          held_storage\<lparr>content :=
            LockRecord (own_lock_data (sample_manager ''a1a1a1a1a1a1'') 301 300)\<rparr>)
   \<and> (100::real) - timestamp other_record \<le> 300
   \<and> acquire_lock False (sample_manager ''a1a1a1a1a1a1'') held_storage 100 300
       = (False, sample_manager ''a1a1a1a1a1a1'', held_storage)
   \<and> \<not> lock_held (sample_manager ''a1a1a1a1a1a1'') \<and> flock_holder held_storage = None
   \<and> fst (acquire_lock True (sample_manager ''a1a1a1a1a1a1'') held_storage 100 300) = True"
proof -
  let ?m = "sample_manager ''a1a1a1a1a1a1''"
  have c: "content held_storage = LockRecord other_record"
    by (simp add: held_storage_def)
  have old: "(300::real) < 301 - timestamp other_record"
    and young: "(100::real) - timestamp other_record \<le> 300"
    by (simp_all add: other_record_def)
  have free: "\<not> lock_held ?m \<and> flock_holder held_storage = None"
    by (simp add: sample_manager_def held_storage_def)
  have a: "acquire_lock False ?m held_storage 301 300
       = (True, ?m\<lparr>lock_held := True, lock_timeout := 300\<rparr>,
          held_storage\<lparr>content := LockRecord (own_lock_data ?m 301 300)\<rparr>)"
    using acquire_lock_decides_by_age [of held_storage other_record 300 301 ?m] c old by blast
  have b: "acquire_lock False ?m held_storage 100 300 = (False, ?m, held_storage)"
    using acquire_lock_decides_by_age [of held_storage other_record 300 100 ?m] c young by blast
  have d: "fst (acquire_lock True ?m held_storage 100 300) = True"
    using acquire_lock_decides_by_age [of held_storage other_record 300 100 ?m] free by simp
  from c old young free a b d show ?thesis by simp
qed

end
